theory Spec2Isabelle
  imports
    Main
    "HOL-Library.Word"
    "HOL-Library.List_Lexorder"
    "HOL-Library.Multiset"
    "HOL-Library.Sublist"
begin

section \<open>JavaScript values used by App.jsx\<close>

text \<open>
  A JavaScript string is a sequence of UTF-16 code units; the default \<^verbatim>\<open>Array.prototype.sort\<close>
  and \<^verbatim>\<open>===\<close> compare strings code unit by code unit. The list order of
  \<^theory_text>\<open>List_Lexorder\<close> over the unsigned order of 16-bit words is exactly that comparison
  (a proper prefix is smaller). String literals of the source are written \<open>js ''...''\<close>.

  \<^verbatim>\<open>undefined\<close> and \<^verbatim>\<open>null\<close> are \<open>None\<close>; every property of an object may be
  missing, so the fields of the records below are options.
\<close>

type_synonym code_unit = "16 word"
type_synonym jsstring = "code_unit list"

definition js :: "string \<Rightarrow> jsstring" where
  "js s = map (\<lambda>c. of_nat (of_char c)) s"

text \<open>Truthiness of a value that is a string, \<^verbatim>\<open>null\<close> or \<^verbatim>\<open>undefined\<close>.\<close>

definition truthy :: "jsstring option \<Rightarrow> bool" where
  "truthy v = (case v of None \<Rightarrow> False | Some s \<Rightarrow> s \<noteq> [])"

text \<open>
  \<^verbatim>\<open>a === b\<close> where \<open>a\<close> is a string or \<^verbatim>\<open>undefined\<close> (a property read) and \<open>b\<close> is a
  string or \<^verbatim>\<open>null\<close> (the \<^verbatim>\<open>userId\<close> state): \<^verbatim>\<open>undefined === null\<close> is false.
\<close>

definition strict_eq :: "jsstring option \<Rightarrow> jsstring option \<Rightarrow> bool" where
  "strict_eq a b = (case (a, b) of (Some x, Some y) \<Rightarrow> x = y | _ \<Rightarrow> False)"

text \<open>String conversion in a template literal and in a computed property key.\<close>

definition to_string :: "jsstring option \<Rightarrow> jsstring" where
  "to_string v = (case v of None \<Rightarrow> js ''undefined'' | Some s \<Rightarrow> s)"

text \<open>
  \<^verbatim>\<open>String.prototype.trim\<close> removes leading and trailing WhiteSpace and LineTerminator
  code points: TAB, LF, VT, FF, CR, SPACE, NBSP, the Unicode space separators, LS, PS and
  the byte order mark.
\<close>

definition white_space :: "code_unit list" where
  "white_space = [0x9, 0xA, 0xB, 0xC, 0xD, 0x20, 0xA0, 0x1680, 0x2000, 0x2001, 0x2002, 0x2003,
     0x2004, 0x2005, 0x2006, 0x2007, 0x2008, 0x2009, 0x200A, 0x2028, 0x2029, 0x202F, 0x205F,
     0x3000, 0xFEFF]"

definition is_white_space :: "code_unit \<Rightarrow> bool" where
  "is_white_space c = (c \<in> set white_space)"

definition trim :: "jsstring \<Rightarrow> jsstring" where
  "trim s = rev (dropWhile is_white_space (rev (dropWhile is_white_space s)))"

text \<open>
  \<^verbatim>\<open>Array.prototype.sort()\<close> with no comparator on an array of strings and
  \<^verbatim>\<open>undefined\<close>: the strings in ascending code-unit order, every \<^verbatim>\<open>undefined\<close> after
  them. \<^verbatim>\<open>Array.prototype.join\<close> writes \<^verbatim>\<open>undefined\<close> as the empty string.
\<close>

definition js_sort :: "jsstring option list \<Rightarrow> jsstring option list" where
  "js_sort xs = map Some (sort (concat (map (\<lambda>x. case x of None \<Rightarrow> [] | Some s \<Rightarrow> [s]) xs)))
                @ filter (\<lambda>x. x = None) xs"

fun js_join :: "jsstring \<Rightarrow> jsstring option list \<Rightarrow> jsstring" where
  "js_join sep [] = []"
| "js_join sep [x] = (case x of None \<Rightarrow> [] | Some s \<Rightarrow> s)"
| "js_join sep (x # y # ys) = (case x of None \<Rightarrow> [] | Some s \<Rightarrow> s) @ sep @ js_join sep (y # ys)"

subsection \<open>Plain objects used as dictionaries\<close>

text \<open>
  The \<^verbatim>\<open>items\<close>, \<^verbatim>\<open>users\<close> and \<^verbatim>\<open>chats\<close> states are plain objects (\<^verbatim>\<open>{}\<close> filled by
  \<^verbatim>\<open>loaded[doc.id] = ...\<close>). Their own properties are kept as an association list in
  insertion order.
  A read \<^verbatim>\<open>obj[key]\<close> finds an own property first and then walks the prototype chain, so
  a key that names a member of \<^verbatim>\<open>Object.prototype\<close> yields that member (a function, or the
  prototype object for \<^verbatim>\<open>__proto__\<close>): a truthy value none of whose properties the
  program reads is defined. Such a value is \<open>Inherited\<close> with the name of the member.
  \<open>Prim\<close> is a primitive string, which is truthy and has none of those properties either;
  the only one the program can come to hold is the result of
  \<^verbatim>\<open>Object.prototype.toString\<close> (see \<open>react_set\<close> below).
\<close>

datatype 'a js_ref = Obj 'a | Inherited jsstring | Prim jsstring

type_synonym 'a js_object = "(jsstring \<times> 'a) list"

definition object_prototype_keys :: "jsstring list" where
  "object_prototype_keys = map js [''constructor'', ''hasOwnProperty'', ''isPrototypeOf'',
     ''propertyIsEnumerable'', ''toLocaleString'', ''toString'', ''valueOf'', ''__proto__'',
     ''__defineGetter__'', ''__defineSetter__'', ''__lookupGetter__'', ''__lookupSetter__'']"

definition js_get :: "'a js_object \<Rightarrow> jsstring \<Rightarrow> 'a js_ref option" where
  "js_get obj k = (case map_of obj k of
                     Some v \<Rightarrow> Some (Obj v)
                   | None \<Rightarrow> if k \<in> set object_prototype_keys then Some (Inherited k) else None)"

text \<open>
  \<^verbatim>\<open>Object.values(obj)\<close> enumerates the own properties whose key is an array index (a
  canonical decimal numeral below \<open>2^32 - 1\<close>) first, in ascending numeric order, and
  then the other properties in insertion order.
\<close>

definition is_digit :: "code_unit \<Rightarrow> bool" where
  "is_digit c \<longleftrightarrow> 0x30 \<le> c \<and> c \<le> 0x39"

definition digits_value :: "jsstring \<Rightarrow> nat" where
  "digits_value k = foldl (\<lambda>n c. 10 * n + (unat c - 48)) 0 k"

definition array_index :: "jsstring \<Rightarrow> nat option" where
  "array_index k =
     (if k \<noteq> [] \<and> list_all is_digit k \<and> (length k = 1 \<or> hd k \<noteq> 0x30)
         \<and> digits_value k < 2 ^ 32 - 1
      then Some (digits_value k) else None)"

definition own_entries :: "'a js_object \<Rightarrow> (jsstring \<times> 'a) list" where
  "own_entries obj =
     map snd (sort_key fst
       (concat (map (\<lambda>(k, v). case array_index k of None \<Rightarrow> [] | Some n \<Rightarrow> [(n, (k, v))]) obj)))
     @ filter (\<lambda>(k, v). array_index k = None) obj"

definition object_values :: "'a js_object \<Rightarrow> 'a list" where
  "object_values obj = map snd (own_entries obj)"

text \<open>A property read \<^verbatim>\<open>r.f\<close> on a looked-up value.\<close>

definition get_prop :: "('a \<Rightarrow> 'b option) \<Rightarrow> 'a js_ref \<Rightarrow> 'b option" where
  "get_prop f r = (case r of Obj x \<Rightarrow> f x | Inherited k \<Rightarrow> None | Prim t \<Rightarrow> None)"

text \<open>An optional-chaining read \<^verbatim>\<open>r?.f\<close> on a state that may be \<^verbatim>\<open>null\<close>.\<close>

definition opt_prop :: "('a \<Rightarrow> 'b option) \<Rightarrow> 'a js_ref option \<Rightarrow> 'b option" where
  "opt_prop f r = (case r of None \<Rightarrow> None | Some x \<Rightarrow> get_prop f x)"

text \<open>
  \<^verbatim>\<open>throw new Error(message)\<close>: every error the program throws is an \<^verbatim>\<open>Error\<close> with a
  message. The program does not catch \<open>SdkError\<close>, an exception thrown by a call into the
  Firebase SDK inside an effect, nor \<open>TypeError\<close>, thrown by a built-in function that React
  calls during a render.
\<close>

datatype error = Error jsstring

datatype sdk_exception = SdkError | TypeError

section \<open>Documents\<close>

text \<open>
  A Firestore timestamp: whole seconds since the epoch and the nanoseconds within the
  second. The program reads \<^verbatim>\<open>seconds\<close> only. \<open>later_than t u\<close> says that \<open>t\<close> is the
  more recent time.
\<close>

record fs_timestamp =
  seconds :: int
  nanoseconds :: int

definition later_than :: "fs_timestamp \<Rightarrow> fs_timestamp \<Rightarrow> bool" where
  "later_than t u \<longleftrightarrow> seconds u < seconds t \<or> (seconds u = seconds t \<and> nanoseconds u < nanoseconds t)"

datatype status = Missing | Returned

text \<open>
  The data of an item document, as \<^verbatim>\<open>handleAddItem\<close> writes it, and the item object of
  the client, \<^verbatim>\<open>{ id: doc.id, ...doc.data() }\<close>.
\<close>

record item_data =
  itemName :: "jsstring option"
  description :: "jsstring option"
  ownerId :: "jsstring option"
  status :: "status option"
  createdAt :: "fs_timestamp option"

record item = item_data +
  item_id :: "jsstring option"

definition with_id :: "jsstring \<Rightarrow> item_data \<Rightarrow> item" where
  "with_id k d = \<lparr>itemName = itemName d, description = description d, ownerId = ownerId d,
                  status = status d, createdAt = createdAt d, item_id = Some k\<rparr>"

record profile =
  uid :: "jsstring option"
  name :: "jsstring option"
  email :: "jsstring option"
  photoURL :: "jsstring option"
  profile_createdAt :: "fs_timestamp option"
  profile_updatedAt :: "fs_timestamp option"

record chat_data =
  participants :: "jsstring option list option"
  chat_itemId :: "jsstring option"
  lastMessageAt :: "fs_timestamp option"

record message_data =
  senderId :: "jsstring option"
  msg_text :: "jsstring option"
  msg_timestamp :: "fs_timestamp option"

record chat_message = message_data +
  msg_id :: "jsstring option"

record chat = chat_data +
  chat_id :: "jsstring option"
  messages :: "chat_message list option"

definition chat_with_id :: "jsstring \<Rightarrow> chat_data \<Rightarrow> chat" where
  "chat_with_id k d = \<lparr>participants = participants d, chat_itemId = chat_itemId d,
                       lastMessageAt = lastMessageAt d, chat_id = Some k, messages = None\<rparr>"

section \<open>The document store\<close>

text \<open>
  The store is the external collaborator. It holds the documents, decides which requests
  it rejects (permission denial, network, expired auth), and records the requests that
  reached it, oldest first. A request carries the identifier as the program passed it;
  a document is stored under its path below the collection (\<open>doc_key\<close>).
\<close>

datatype request =
    GetUserDoc jsstring
  | MergeUserDoc jsstring
  | MergePublicProfile jsstring
  | AddItemDoc jsstring
  | MergeItemDoc jsstring
  | MergeChatDoc jsstring
  | AddMessageDoc jsstring

record backend =
  user_docs :: "jsstring \<rightharpoonup> profile"
  public_profiles :: "jsstring \<rightharpoonup> profile"
  item_docs :: "jsstring \<rightharpoonup> item_data"
  chat_docs :: "jsstring \<rightharpoonup> chat_data"
  message_docs :: "jsstring \<Rightarrow> message_data list"
  server_time :: fs_timestamp
  denied :: "request \<Rightarrow> bool"
  requests :: "request list"

text \<open>
  Document paths. The SDK builds a reference from path components: \<^verbatim>\<open>doc\<close> and
  \<^verbatim>\<open>collection\<close> throw in the client on a component that contains \<^verbatim>\<open>//\<close>, split every
  component at \<^verbatim>\<open>/\<close>, drop the empty segments, and throw unless a document path has an
  even and a collection path an odd number of segments. Every reference of the program
  puts one identifier into a path whose other components are fixed (a collection of five
  segments and the identifier; \<^verbatim>\<open>artifacts/appId/users\<close>, the identifier and two more
  segments; the chats collection, the identifier and \<^verbatim>\<open>messages\<close>), so the reference is
  built exactly when the identifier has no \<^verbatim>\<open>//\<close> and an odd number of segments. The
  empty identifier has none. Two identifiers with the same segments name one document.
\<close>

fun split_path :: "jsstring \<Rightarrow> jsstring list" where
  "split_path [] = [[]]"
| "split_path (c # cs) =
     (if c = 0x2F then [] # split_path cs
      else case split_path cs of [] \<Rightarrow> [[c]] | seg # segs \<Rightarrow> (c # seg) # segs)"

definition path_segments :: "jsstring \<Rightarrow> jsstring list" where
  "path_segments k = filter (\<lambda>seg. seg \<noteq> []) (split_path k)"

fun has_double_slash :: "jsstring \<Rightarrow> bool" where
  "has_double_slash (c # d # cs) = ((c = 0x2F \<and> d = 0x2F) \<or> has_double_slash (d # cs))"
| "has_double_slash cs = False"

definition doc_path_ok :: "jsstring \<Rightarrow> bool" where
  "doc_path_ok k \<longleftrightarrow> \<not> has_double_slash k \<and> odd (length (path_segments k))"

definition doc_key :: "jsstring \<Rightarrow> jsstring" where
  "doc_key k = js_join [0x2F] (map Some (path_segments k))"

text \<open>The outcome of \<^verbatim>\<open>await getDoc(ref)\<close>: it throws, or the snapshot does not exist, or it has data.\<close>

datatype 'a read = ReadError | NoDoc | Doc 'a

text \<open>
  \<^verbatim>\<open>getDoc(getUserDocRef(uid))\<close>. \<^verbatim>\<open>doc(db, ..., uid, ...)\<close> throws in the client, before
  any request is sent, when \<^verbatim>\<open>uid\<close> is \<^verbatim>\<open>undefined\<close> or gives no document path.
\<close>

definition getDoc_user :: "jsstring option \<Rightarrow> backend \<Rightarrow> profile read \<times> backend" where
  "getDoc_user u b =
     (case u of
        None \<Rightarrow> (ReadError, b)
      | Some k \<Rightarrow>
          if \<not> doc_path_ok k then (ReadError, b)
          else let b' = b\<lparr>requests := requests b @ [GetUserDoc k]\<rparr> in
            if denied b (GetUserDoc k) then (ReadError, b')
            else case user_docs b (doc_key k) of None \<Rightarrow> (NoDoc, b') | Some p \<Rightarrow> (Doc p, b'))"

text \<open>
  \<^verbatim>\<open>setDoc(ref, data, { merge: true })\<close> keeps every field the write does not name.
\<close>

definition merge_field :: "'a option \<Rightarrow> 'a option \<Rightarrow> 'a option" where
  "merge_field old new = (case new of None \<Rightarrow> old | Some v \<Rightarrow> Some v)"

definition merge_item :: "item_data option \<Rightarrow> item_data \<Rightarrow> item_data" where
  "merge_item old w = (case old of None \<Rightarrow> w | Some d \<Rightarrow>
     \<lparr>itemName = merge_field (itemName d) (itemName w),
      description = merge_field (description d) (description w),
      ownerId = merge_field (ownerId d) (ownerId w),
      status = merge_field (status d) (status w),
      createdAt = merge_field (createdAt d) (createdAt w)\<rparr>)"

definition merge_chat :: "chat_data option \<Rightarrow> chat_data \<Rightarrow> chat_data" where
  "merge_chat old w = (case old of None \<Rightarrow> w | Some d \<Rightarrow>
     \<lparr>participants = merge_field (participants d) (participants w),
      chat_itemId = merge_field (chat_itemId d) (chat_itemId w),
      lastMessageAt = merge_field (lastMessageAt d) (lastMessageAt w)\<rparr>)"

definition merge_profile :: "profile option \<Rightarrow> profile \<Rightarrow> profile" where
  "merge_profile old w = (case old of None \<Rightarrow> w | Some d \<Rightarrow>
     \<lparr>uid = merge_field (uid d) (uid w),
      name = merge_field (name d) (name w),
      email = merge_field (email d) (email w),
      photoURL = merge_field (photoURL d) (photoURL w),
      profile_createdAt = merge_field (profile_createdAt d) (profile_createdAt w),
      profile_updatedAt = merge_field (profile_updatedAt d) (profile_updatedAt w)\<rparr>)"

text \<open>
  The write calls. Each returns whether the awaited promise resolved and the store after
  it. A call throws in the client, with no request sent, when the database handle is
  missing (\<^verbatim>\<open>getPublicCollectionRef\<close> returns \<^verbatim>\<open>null\<close>) or when the document id is
  \<^verbatim>\<open>undefined\<close> or gives no document path. (A write whose data holds an \<^verbatim>\<open>undefined\<close>
  value throws as well; the handlers below check that before they call.)
\<close>

definition send_write ::
  "request \<Rightarrow> (backend \<Rightarrow> backend) \<Rightarrow> backend \<Rightarrow> bool \<times> backend" where
  "send_write r upd b =
     (let b' = b\<lparr>requests := requests b @ [r]\<rparr> in
      if denied b r then (False, b') else (True, upd b'))"

definition setDoc_chat :: "bool \<Rightarrow> jsstring option \<Rightarrow> chat_data \<Rightarrow> backend \<Rightarrow> bool \<times> backend" where
  "setDoc_chat db_ok k w b =
     (case k of
        None \<Rightarrow> (False, b)
      | Some i \<Rightarrow>
          if \<not> db_ok \<or> \<not> doc_path_ok i then (False, b)
          else send_write (MergeChatDoc i)
                 (\<lambda>b'. b'\<lparr>chat_docs :=
                            (chat_docs b')(doc_key i \<mapsto> merge_chat (chat_docs b' (doc_key i)) w)\<rparr>) b)"

definition setDoc_item :: "bool \<Rightarrow> jsstring option \<Rightarrow> item_data \<Rightarrow> backend \<Rightarrow> bool \<times> backend" where
  "setDoc_item db_ok k w b =
     (case k of
        None \<Rightarrow> (False, b)
      | Some i \<Rightarrow>
          if \<not> db_ok \<or> \<not> doc_path_ok i then (False, b)
          else send_write (MergeItemDoc i)
                 (\<lambda>b'. b'\<lparr>item_docs :=
                            (item_docs b')(doc_key i \<mapsto> merge_item (item_docs b' (doc_key i)) w)\<rparr>) b)"

definition setDoc_user :: "bool \<Rightarrow> jsstring \<Rightarrow> profile \<Rightarrow> backend \<Rightarrow> bool \<times> backend" where
  "setDoc_user db_ok k w b =
     (if \<not> db_ok \<or> \<not> doc_path_ok k then (False, b)
      else send_write (MergeUserDoc k)
             (\<lambda>b'. b'\<lparr>user_docs :=
                        (user_docs b')(doc_key k \<mapsto> merge_profile (user_docs b' (doc_key k)) w)\<rparr>) b)"

definition setDoc_public_profile :: "bool \<Rightarrow> jsstring \<Rightarrow> profile \<Rightarrow> backend \<Rightarrow> bool \<times> backend" where
  "setDoc_public_profile db_ok k w b =
     (if \<not> db_ok \<or> \<not> doc_path_ok k then (False, b)
      else send_write (MergePublicProfile k)
             (\<lambda>b'. b'\<lparr>public_profiles :=
                        (public_profiles b')
                          (doc_key k \<mapsto> merge_profile (public_profiles b' (doc_key k)) w)\<rparr>) b)"

text \<open>
  \<^verbatim>\<open>addDoc(collection, data)\<close> writes a new document under an identifier the SDK
  generates; the generated identifier is an argument of the model.
\<close>

definition addDoc_item :: "bool \<Rightarrow> jsstring \<Rightarrow> item_data \<Rightarrow> backend \<Rightarrow> bool \<times> backend" where
  "addDoc_item db_ok new_id w b =
     (if \<not> db_ok then (False, b)
      else send_write (AddItemDoc new_id) (\<lambda>b'. b'\<lparr>item_docs := (item_docs b')(new_id \<mapsto> w)\<rparr>) b)"

definition addDoc_message :: "bool \<Rightarrow> jsstring option \<Rightarrow> message_data \<Rightarrow> backend \<Rightarrow> bool \<times> backend" where
  "addDoc_message db_ok k w b =
     (case k of
        None \<Rightarrow> (False, b)
      | Some i \<Rightarrow>
          if \<not> db_ok \<or> \<not> doc_path_ok i then (False, b)
          else send_write (AddMessageDoc i)
                 (\<lambda>b'. b'\<lparr>message_docs :=
                            (message_docs b')(doc_key i := message_docs b' (doc_key i) @ [w])\<rparr>) b)"

section \<open>The state of the App component\<close>

datatype view = Login | ProfileSetup | Dashboard | AddItem | ItemQR | Scan | UserProfile | Chat

text \<open>
  The closures the program stores in the modal: the empty function of the initial state,
  \<^verbatim>\<open>() => setModal({ isOpen: false })\<close>, and the \<^verbatim>\<open>onConfirm\<close> of \<^verbatim>\<open>handleMarkReturned\<close>,
  which captures the \<^verbatim>\<open>selectedItem\<close> of the render that created it.
\<close>

datatype callback = Noop | CloseModal | ConfirmReturn "item js_ref"

record modal =
  isOpen :: bool
  title :: "jsstring option"
  message :: "jsstring option"
  onConfirm :: "callback option"
  onCancel :: "callback option"

text \<open>
  The React state of \<^verbatim>\<open>App\<close>, the module-level \<^verbatim>\<open>db\<close> handle (set when the configuration
  is valid), and what React keeps for the messages effect: the dependency
  \<^verbatim>\<open>selectedChat?.id\<close> of its last run, the chat whose \<^verbatim>\<open>onSnapshot\<close> listener that run
  registered (its cleanup calls \<^verbatim>\<open>unsubscribe\<close>), and the chats unsubscribed so far.
  \<open>render_failed\<close> records that a render threw: without an error boundary React then
  unmounts the whole tree.
\<close>

record app_state =
  db :: bool
  userId :: "jsstring option"
  user_email :: "jsstring option"
  userProfile :: "profile option"
  users :: "profile js_object"
  items :: "item js_object"
  chats :: "chat js_object"
  view :: view
  selectedItem :: "item js_ref option"
  selectedUser :: "profile js_ref option"
  selectedChat :: "chat js_ref option"
  modal :: modal
  messages_dep :: "jsstring option"
  messages_listener :: "jsstring option"
  unsubscribed :: "jsstring list"
  render_failed :: bool

definition initial_modal :: modal where
  "initial_modal = \<lparr>isOpen = False, title = Some [], message = Some [],
                     onConfirm = Some Noop, onCancel = None\<rparr>"

definition initial_state :: "bool \<Rightarrow> app_state" where
  "initial_state db_ok =
     \<lparr>db = db_ok, userId = None, user_email = None, userProfile = None, users = [], items = [],
      chats = [], view = Login, selectedItem = None, selectedUser = None, selectedChat = None,
      modal = initial_modal, messages_dep = None, messages_listener = None, unsubscribed = [],
      render_failed = False\<rparr>"

text \<open>\<^verbatim>\<open>setModal({ isOpen: false })\<close> replaces the whole modal state.\<close>

definition closed_modal :: modal where
  "closed_modal = \<lparr>isOpen = False, title = None, message = None, onConfirm = None, onCancel = None\<rparr>"

text \<open>The notices: \<^verbatim>\<open>globalSetModal({ isOpen: true, title, message, onConfirm: close, onCancel: null })\<close>.\<close>

definition notice :: "string \<Rightarrow> string \<Rightarrow> modal" where
  "notice t m = \<lparr>isOpen = True, title = Some (js t), message = Some (js m),
                  onConfirm = Some CloseModal, onCancel = None\<rparr>"

subsection \<open>State setters\<close>

text \<open>
  \<^verbatim>\<open>setSelectedItem(v)\<close>, \<^verbatim>\<open>setSelectedUser(v)\<close> and \<^verbatim>\<open>setSelectedChat(v)\<close> for a value
  \<open>v\<close> that a lookup returned. React stores an object as it is, but calls a function as an
  updater, \<^verbatim>\<open>v(prev)\<close> with \<^verbatim>\<open>this\<close> undefined, during the next render, and the result
  becomes the state. For the members of \<^verbatim>\<open>Object.prototype\<close>: \<^verbatim>\<open>__proto__\<close> is the
  prototype object, not a function; \<^verbatim>\<open>constructor\<close> is \<^verbatim>\<open>Object\<close>, which returns an
  object unchanged and a new object for every other value; \<^verbatim>\<open>toString\<close> returns the
  string \<^verbatim>\<open>[object Undefined]\<close>; \<^verbatim>\<open>isPrototypeOf\<close> returns \<^verbatim>\<open>false\<close> for a value that is
  not an object and throws for an object; every other member throws a \<^verbatim>\<open>TypeError\<close>,
  since it converts \<^verbatim>\<open>this\<close> to an object first.

  An object without any property of the record (the prototype object, a wrapper, \<^verbatim>\<open>{}\<close>)
  is the empty record, and \<^verbatim>\<open>false\<close> is \<open>None\<close>: the program tests these states for
  truthiness, reads their properties and spreads them, and does nothing else with them.
\<close>

definition empty_item :: item where
  "empty_item = \<lparr>itemName = None, description = None, ownerId = None, status = None,
                  createdAt = None, item_id = None\<rparr>"

definition empty_profile :: profile where
  "empty_profile = \<lparr>uid = None, name = None, email = None, photoURL = None,
                     profile_createdAt = None, profile_updatedAt = None\<rparr>"

definition empty_chat :: chat where
  "empty_chat = \<lparr>participants = None, chat_itemId = None, lastMessageAt = None,
                  chat_id = None, messages = None\<rparr>"

definition react_set :: "'a \<Rightarrow> 'a js_ref option \<Rightarrow> 'a js_ref \<Rightarrow> sdk_exception + 'a js_ref option" where
  "react_set blank prev v =
     (case v of
        Obj x \<Rightarrow> Inr (Some (Obj x))
      | Prim t \<Rightarrow> Inr (Some (Prim t))
      | Inherited k \<Rightarrow>
          if k = js ''__proto__'' then Inr (Some (Obj blank))
          else if k = js ''constructor''
            then Inr (Some (case prev of Some (Obj x) \<Rightarrow> Obj x | _ \<Rightarrow> Obj blank))
          else if k = js ''toString'' then Inr (Some (Prim (js ''[object Undefined]'')))
          else if k = js ''isPrototypeOf''
            then (case prev of None \<Rightarrow> Inr None | Some (Prim t) \<Rightarrow> Inr None | Some r \<Rightarrow> Inl TypeError)
          else Inl TypeError)"

section \<open>Helpers of the module\<close>

definition getChatDocId :: "jsstring option \<Rightarrow> jsstring option \<Rightarrow> jsstring" where
  "getChatDocId uid1 uid2 = (let sortedUids = js_sort [uid1, uid2] in js_join (js ''_'') sortedUids)"

text \<open>
  \<^verbatim>\<open>fetchProfileByUid\<close>: without a database, \<^verbatim>\<open>null\<close>; the data of an existing document;
  \<^verbatim>\<open>null\<close> when the document does not exist; and, when the read throws, the error is
  logged to the console and the function falls through to \<^verbatim>\<open>return null\<close>.
\<close>

definition fetchProfileByUid :: "bool \<Rightarrow> jsstring option \<Rightarrow> backend \<Rightarrow> profile option \<times> backend" where
  "fetchProfileByUid db_ok u b =
     (if \<not> db_ok then (None, b)
      else case getDoc_user u b of
             (Doc p, b') \<Rightarrow> (Some p, b')
           | (NoDoc, b') \<Rightarrow> (None, b')
           | (ReadError, b') \<Rightarrow> (None, b'))"

section \<open>Handlers\<close>

subsection \<open>Scan resolution\<close>

text \<open>
  \<^verbatim>\<open>handleScanResult\<close>. On the self-scan branch the item has an \<^verbatim>\<open>ownerId\<close>, so it is a
  record of the snapshot. On the last branch the item and the owner profile go through
  the state setters; if an updater throws, the function still returns the item, and the
  render that follows fails.
\<close>

definition handleScanResult ::
  "jsstring \<Rightarrow> app_state \<times> backend \<Rightarrow> (error + item js_ref) \<times> app_state \<times> backend" where
  "handleScanResult scanned sb =
     (let (s, b) = sb in
      if \<not> db s \<or> \<not> truthy (userId s) then (Inl (Error (js ''App not initialized.'')), s, b)
      else case js_get (items s) scanned of
        None \<Rightarrow> (Inl (Error (js ''No item found with ID: '' @ scanned)), s, b)
      | Some it \<Rightarrow>
          if strict_eq (get_prop ownerId it) (userId s)
          then (Inl (Error (js ''This is your own registered item.'')),
                s\<lparr>selectedItem := Some it, view := ItemQR\<rparr>, b)
          else
            let (ownerProfile, b') =
                  (case js_get (users s) (to_string (get_prop ownerId it)) of
                     Some p \<Rightarrow> (Some p, b)
                   | None \<Rightarrow> (case fetchProfileByUid (db s) (get_prop ownerId it) b of
                                (None, b1) \<Rightarrow> (None, b1)
                              | (Some p, b1) \<Rightarrow> (Some (Obj p), b1)))
            in case ownerProfile of
                 None \<Rightarrow> (Inl (Error (js ''Item found, but owner profile is missing or inaccessible.'')),
                           s, b')
               | Some p \<Rightarrow>
                   (case (react_set empty_item (selectedItem s) it,
                          react_set empty_profile (selectedUser s) p) of
                      (Inr i', Inr u') \<Rightarrow>
                        (Inr it, s\<lparr>selectedItem := i', selectedUser := u', view := UserProfile\<rparr>, b')
                    | _ \<Rightarrow> (Inr it, s\<lparr>render_failed := True\<rparr>, b')))"

text \<open>
  \<^verbatim>\<open>handleSubmit\<close> of \<^verbatim>\<open>ScanView\<close>, for the text of the input field: it clears the
  view's error, and when the trimmed text is not empty it calls \<^verbatim>\<open>handleScanResult\<close> with
  the trimmed text and, in \<^verbatim>\<open>.catch\<close>, sets the error to the message of a rejection.
  The state updates of the handler are rendered before the \<^verbatim>\<open>.catch\<close> callback runs, so
  when the handler has left the scan view the component is unmounted by then and has no
  error state. The first component of the result is the \<^verbatim>\<open>ScanView\<close> afterwards: unmounted,
  or mounted with its \<^verbatim>\<open>error\<close> state.
\<close>

datatype scan_view = Unmounted | Mounted "jsstring option"

definition scan_view_with :: "jsstring option \<Rightarrow> app_state \<Rightarrow> scan_view" where
  "scan_view_with err s = (if view s = Scan \<and> \<not> render_failed s then Mounted err else Unmounted)"

definition ScanView_handleSubmit ::
  "jsstring \<Rightarrow> app_state \<times> backend \<Rightarrow> scan_view \<times> app_state \<times> backend" where
  "ScanView_handleSubmit field sb =
     (if trim field \<noteq> []
      then case handleScanResult (trim field) sb of
             (Inl (Error m), s', b') \<Rightarrow> (scan_view_with (Some m) s', s', b')
           | (Inr it, s', b') \<Rightarrow> (scan_view_with None s', s', b')
      else (scan_view_with None (fst sb), sb))"

subsection \<open>Chat\<close>

text \<open>
  \<^verbatim>\<open>handleStartChat\<close>. \<^verbatim>\<open>setDoc\<close> throws in the client on data that holds an
  \<^verbatim>\<open>undefined\<close> value, here a participant or the item identifier; every failure of the
  write ends in the catch block, which opens the notice. The chat found in the \<^verbatim>\<open>chats\<close>
  state goes through the state setter.
\<close>

definition handleStartChat :: "app_state \<times> backend \<Rightarrow> app_state \<times> backend" where
  "handleStartChat sb =
     (let (s, b) = sb in
      case selectedItem s of
        None \<Rightarrow> (s, b)
      | Some it \<Rightarrow>
          if selectedUser s = None \<or> \<not> truthy (userId s) then (s, b)
          else
            let otherUserId = get_prop ownerId it;
                chatId = getChatDocId (userId s) otherUserId;
                w = \<lparr>participants = Some (js_sort [userId s, otherUserId]),
                     chat_itemId = get_prop item_id it,
                     lastMessageAt = Some (server_time b)\<rparr>;
                (ok, b') = (if otherUserId = None \<or> get_prop item_id it = None then (False, b)
                            else setDoc_chat (db s) (Some chatId) w b)
            in if ok
               then (case react_set empty_chat (selectedChat s)
                            (case js_get (chats s) chatId of
                               Some c \<Rightarrow> c
                             | None \<Rightarrow> Obj \<lparr>participants = Some [userId s, otherUserId],
                                             chat_itemId = None, lastMessageAt = None,
                                             chat_id = Some chatId, messages = Some []\<rparr>) of
                       Inr c' \<Rightarrow> (s\<lparr>selectedChat := c', view := Chat\<rparr>, b')
                     | Inl err \<Rightarrow> (s\<lparr>render_failed := True\<rparr>, b'))
               else (s\<lparr>modal := notice ''Chat Error'' ''Failed to start chat. Try again.''\<rparr>, b'))"

definition handleSendMessage :: "jsstring \<Rightarrow> app_state \<times> backend \<Rightarrow> app_state \<times> backend" where
  "handleSendMessage txt sb =
     (let (s, b) = sb in
      case selectedChat s of
        None \<Rightarrow> (s, b)
      | Some c \<Rightarrow>
          if \<not> truthy (userId s) \<or> \<not> db s then (s, b)
          else
            case addDoc_message (db s) (get_prop chat_id c)
                   \<lparr>senderId = userId s, msg_text = Some txt, msg_timestamp = Some (server_time b)\<rparr> b of
              (False, b1) \<Rightarrow> (s\<lparr>modal := notice ''Error'' ''Failed to send message.''\<rparr>, b1)
            | (True, b1) \<Rightarrow>
                (case setDoc_chat (db s) (get_prop chat_id c)
                        \<lparr>participants = None, chat_itemId = None,
                         lastMessageAt = Some (server_time b1)\<rparr> b1 of
                   (False, b2) \<Rightarrow> (s\<lparr>modal := notice ''Error'' ''Failed to send message.''\<rparr>, b2)
                 | (True, b2) \<Rightarrow> (s, b2)))"

text \<open>\<^verbatim>\<open>handleSend\<close> of \<^verbatim>\<open>ChatView\<close>.\<close>

definition ChatView_handleSend :: "jsstring \<Rightarrow> app_state \<times> backend \<Rightarrow> app_state \<times> backend" where
  "ChatView_handleSend field sb =
     (if trim field \<noteq> [] then handleSendMessage (trim field) sb else sb)"

subsection \<open>Items\<close>

text \<open>
  \<^verbatim>\<open>handleAddItem\<close>. The selected \<^verbatim>\<open>newItem\<close> spreads the object that was written, whose
  \<^verbatim>\<open>createdAt\<close> is the \<^verbatim>\<open>serverTimestamp()\<close> sentinel and has no \<^verbatim>\<open>seconds\<close>.
\<close>

definition handleAddItem ::
  "jsstring \<Rightarrow> jsstring \<Rightarrow> jsstring \<Rightarrow> app_state \<times> backend \<Rightarrow> app_state \<times> backend" where
  "handleAddItem nm descr new_id sb =
     (let (s, b) = sb in
      if \<not> truthy (userId s) \<or> \<not> db s then (s, b)
      else
        let w = \<lparr>itemName = Some nm, description = Some descr, ownerId = userId s,
                 status = Some Missing, createdAt = Some (server_time b)\<rparr>
        in case addDoc_item (db s) new_id w b of
             (True, b') \<Rightarrow> (s\<lparr>selectedItem := Some (Obj ((with_id new_id w)\<lparr>createdAt := None\<rparr>)),
                              view := ItemQR\<rparr>, b')
           | (False, b') \<Rightarrow>
               (s\<lparr>modal := notice ''Error'' ''Failed to add item. Please try again.''\<rparr>, b'))"

definition AddItemView_handleSubmit ::
  "jsstring \<Rightarrow> jsstring \<Rightarrow> jsstring \<Rightarrow> app_state \<times> backend \<Rightarrow> app_state \<times> backend" where
  "AddItemView_handleSubmit name_field descr_field new_id sb =
     (if trim name_field \<noteq> [] then handleAddItem (trim name_field) (trim descr_field) new_id sb
      else sb)"

text \<open>
  \<^verbatim>\<open>handleMarkReturned\<close> only opens the confirmation modal. Its \<^verbatim>\<open>onConfirm\<close> closes the
  modal, writes \<^verbatim>\<open>{ status: 'returned' }\<close> with merge to the document of the captured
  item, then spreads the current selection with the new status
  (\<^verbatim>\<open>prev => ({ ...prev, status: 'returned' })\<close>) and opens a notice; on a rejected write
  it opens the error notice. The code unit \<open>0x22\<close> is the double quote of the message.
\<close>

definition handleMarkReturned :: "app_state \<Rightarrow> app_state" where
  "handleMarkReturned s =
     (case selectedItem s of
        None \<Rightarrow> s
      | Some it \<Rightarrow>
          if \<not> db s then s
          else s\<lparr>modal :=
                   \<lparr>isOpen = True, title = Some (js ''Confirm Item Return''),
                    message = Some (js ''Are you sure you want to mark '' @ [0x22]
                                    @ to_string (get_prop itemName it) @ [0x22]
                                    @ js '' as returned? This action will notify the owner.''),
                    onConfirm = Some (ConfirmReturn it), onCancel = Some CloseModal\<rparr>\<rparr>)"

definition spread_item :: "item js_ref option \<Rightarrow> item" where
  "spread_item prev =
     (case prev of
        Some (Obj x) \<Rightarrow> x
      | _ \<Rightarrow> empty_item)"

fun run_callback :: "callback \<Rightarrow> app_state \<times> backend \<Rightarrow> app_state \<times> backend" where
  "run_callback Noop (s, b) = (s, b)"
| "run_callback CloseModal (s, b) = (s\<lparr>modal := closed_modal\<rparr>, b)"
| "run_callback (ConfirmReturn it) (s, b) =
     (case setDoc_item (db s) (get_prop item_id it)
             \<lparr>itemName = None, description = None, ownerId = None, status = Some Returned,
              createdAt = None\<rparr> b of
        (True, b') \<Rightarrow>
          (s\<lparr>selectedItem := Some (Obj ((spread_item (selectedItem s))\<lparr>status := Some Returned\<rparr>)),
             modal := notice ''Success'' ''Item marked as returned! Thank you for your honesty.''\<rparr>, b')
      | (False, b') \<Rightarrow> (s\<lparr>modal := notice ''Error'' ''Failed to update item status.''\<rparr>, b'))"

text \<open>
  The buttons of \<^verbatim>\<open>CustomModal\<close>, which renders nothing while the modal is closed and
  renders Cancel only when \<^verbatim>\<open>onCancel\<close> is set.
\<close>

definition click_confirm :: "app_state \<times> backend \<Rightarrow> app_state \<times> backend" where
  "click_confirm sb =
     (if isOpen (modal (fst sb))
      then case onConfirm (modal (fst sb)) of None \<Rightarrow> sb | Some f \<Rightarrow> run_callback f sb
      else sb)"

definition click_cancel :: "app_state \<times> backend \<Rightarrow> app_state \<times> backend" where
  "click_cancel sb =
     (if isOpen (modal (fst sb))
      then case onCancel (modal (fst sb)) of None \<Rightarrow> sb | Some f \<Rightarrow> run_callback f sb
      else sb)"

subsection \<open>Profile, sign-out, navigation\<close>

definition handleProfileSetup ::
  "jsstring \<Rightarrow> jsstring \<Rightarrow> app_state \<times> backend \<Rightarrow> app_state \<times> backend" where
  "handleProfileSetup nm photo sb =
     (let (s, b) = sb in
      case userId s of
        None \<Rightarrow> (s, b)
      | Some u \<Rightarrow>
          if u = [] \<or> \<not> db s then (s, b)
          else
            let mail = (if truthy (user_email s) then user_email s else Some (js ''N/A''));
                profileData =
                  \<lparr>uid = Some u, name = Some nm, email = mail, photoURL = Some photo,
                   profile_createdAt =
                     (case userProfile s of
                        None \<Rightarrow> Some (server_time b)
                      | Some p \<Rightarrow> (case profile_createdAt p of
                                     None \<Rightarrow> Some (server_time b)
                                   | Some t \<Rightarrow> Some t)),
                   profile_updatedAt = Some (server_time b)\<rparr>
            in case setDoc_user (db s) u profileData b of
                 (False, b1) \<Rightarrow>
                   (s\<lparr>modal := notice ''Error'' ''Failed to save profile. Please try again.''\<rparr>, b1)
               | (True, b1) \<Rightarrow>
                   (case setDoc_public_profile (db s) u
                           \<lparr>uid = Some u, name = Some nm, email = mail, photoURL = Some photo,
                            profile_createdAt = None, profile_updatedAt = None\<rparr> b1 of
                      (False, b2) \<Rightarrow>
                        (s\<lparr>modal := notice ''Error'' ''Failed to save profile. Please try again.''\<rparr>, b2)
                    | (True, b2) \<Rightarrow> (s\<lparr>view := Dashboard\<rparr>, b2)))"

definition ProfileSetupView_handleSubmit ::
  "jsstring \<Rightarrow> jsstring option \<Rightarrow> app_state \<times> backend \<Rightarrow> app_state \<times> backend" where
  "ProfileSetupView_handleSubmit name_field photo sb =
     (case photo of
        None \<Rightarrow> sb
      | Some ph \<Rightarrow> if trim name_field \<noteq> [] \<and> ph \<noteq> [] then handleProfileSetup (trim name_field) ph sb
                   else sb)"

text \<open>
  \<^verbatim>\<open>handleLogout\<close>, for an \<^verbatim>\<open>auth\<close> handle that is initialised together with \<^verbatim>\<open>db\<close>. When
  \<^verbatim>\<open>signOut\<close> resolves, the auth listener has cleared the user and set the login view
  and the handler clears the three selections; when it rejects, nothing changes.
\<close>

definition handleLogout :: "bool \<Rightarrow> app_state \<Rightarrow> app_state" where
  "handleLogout signed_out s =
     (if db s \<and> signed_out
      then s\<lparr>userId := None, user_email := None, userProfile := None, view := Login,
             selectedItem := None, selectedUser := None, selectedChat := None\<rparr>
      else s)"

definition setView :: "view \<Rightarrow> app_state \<Rightarrow> app_state" where
  "setView v s = s\<lparr>view := v\<rparr>"

subsection \<open>Snapshot listeners\<close>

text \<open>
  \<^verbatim>\<open>loaded[doc.id] = value\<close> on a plain object: an existing own property keeps its place,
  a new one is appended.
\<close>

fun js_set :: "'a js_object \<Rightarrow> jsstring \<Rightarrow> 'a \<Rightarrow> 'a js_object" where
  "js_set [] k v = [(k, v)]"
| "js_set ((k', v') # ps) k v = (if k' = k then (k, v) # ps else (k', v') # js_set ps k v)"

definition object_of_docs :: "(jsstring \<Rightarrow> 'd \<Rightarrow> 'a) \<Rightarrow> (jsstring \<times> 'd) list \<Rightarrow> 'a js_object" where
  "object_of_docs f docs = foldl (\<lambda>obj (k, d). js_set obj k (f k d)) [] docs"

text \<open>The data listeners exist only for a signed-in user with a completed profile.\<close>

definition data_listeners_active :: "app_state \<Rightarrow> bool" where
  "data_listeners_active s =
     (truthy (userId s) \<and> db s \<and>
      (case userProfile s of None \<Rightarrow> False | Some p \<Rightarrow> name p \<noteq> Some (js ''Anonymous User'')))"

definition items_listener :: "(jsstring \<times> item_data) list \<Rightarrow> app_state \<Rightarrow> app_state" where
  "items_listener docs s =
     (if data_listeners_active s then s\<lparr>items := object_of_docs with_id docs\<rparr> else s)"

definition chats_listener :: "(jsstring \<times> chat_data) list \<Rightarrow> app_state \<Rightarrow> app_state" where
  "chats_listener docs s =
     (if data_listeners_active s then s\<lparr>chats := object_of_docs chat_with_id docs\<rparr> else s)"

definition users_listener :: "(jsstring \<times> profile) list \<Rightarrow> app_state \<Rightarrow> app_state" where
  "users_listener docs s =
     (case userProfile s of
        None \<Rightarrow> s
      | Some p \<Rightarrow>
          if data_listeners_active s
          then s\<lparr>users := js_set (object_of_docs (\<lambda>k d. d) docs) (to_string (uid p)) p\<rparr>
          else s)"

text \<open>
  The callback of the messages listener, which runs only while the listener is
  registered: \<^verbatim>\<open>setSelectedChat(prev => ({ ...prev, messages: msgs }))\<close>.
\<close>

definition spread_chat :: "chat js_ref option \<Rightarrow> chat" where
  "spread_chat prev =
     (case prev of
        Some (Obj c) \<Rightarrow> c
      | _ \<Rightarrow> empty_chat)"

definition message_with_id :: "jsstring \<Rightarrow> message_data \<Rightarrow> chat_message" where
  "message_with_id k d = \<lparr>senderId = senderId d, msg_text = msg_text d,
                           msg_timestamp = msg_timestamp d, msg_id = Some k\<rparr>"

definition messages_listener_callback ::
  "(jsstring \<times> message_data) list \<Rightarrow> app_state \<Rightarrow> app_state" where
  "messages_listener_callback docs s =
     (if messages_listener s = None then s
      else s\<lparr>selectedChat :=
               Some (Obj ((spread_chat (selectedChat s))
                            \<lparr>messages := Some (map (\<lambda>(k, d). message_with_id k d) docs)\<rparr>))\<rparr>)"

subsection \<open>The messages effect\<close>

text \<open>
  \<^verbatim>\<open>useEffect(..., [selectedChat?.id])\<close>. After a render React compares the dependency
  with the one of the last run. When it differs, the cleanup of the last run is called
  (it unsubscribes the listener, if that run registered one), and the effect runs again:
  it returns at once without a selected chat or database, and otherwise registers a
  listener on the messages of \<^verbatim>\<open>selectedChat.id\<close>, ordered by \<^verbatim>\<open>timestamp\<close> ascending.
  \<^verbatim>\<open>collection(...)\<close> throws on an identifier that is \<^verbatim>\<open>undefined\<close> or gives no
  path. The effect does not depend on \<^verbatim>\<open>view\<close>.
\<close>

definition messages_effect :: "app_state \<Rightarrow> sdk_exception + app_state" where
  "messages_effect s =
     (let dep = opt_prop chat_id (selectedChat s) in
      if dep = messages_dep s then Inr s
      else
        let s1 = s\<lparr>messages_dep := dep,
                   messages_listener := None,
                   unsubscribed := unsubscribed s @
                     (case messages_listener s of None \<Rightarrow> [] | Some k \<Rightarrow> [k])\<rparr>
        in if selectedChat s = None \<or> \<not> db s then Inr s1
           else case dep of
                  None \<Rightarrow> Inl SdkError
                | Some k \<Rightarrow> if \<not> doc_path_ok k then Inl SdkError
                            else Inr (s1\<lparr>messages_listener := Some k\<rparr>))"

section \<open>Derived values of a render\<close>

text \<open>
  The comparator of \<^verbatim>\<open>myItems\<close>. \<^verbatim>\<open>createdAt?.seconds || 0\<close> is \<open>0\<close> for an item with no
  timestamp.
\<close>

definition created_seconds :: "item \<Rightarrow> int" where
  "created_seconds x = (case createdAt x of None \<Rightarrow> 0 | Some t \<Rightarrow> seconds t)"

definition compare_items :: "item \<Rightarrow> item \<Rightarrow> int" where
  "compare_items a b =
     (if status a = Some Missing \<and> status b \<noteq> Some Missing then - 1
      else if status a \<noteq> Some Missing \<and> status b = Some Missing then 1
      else created_seconds b - created_seconds a)"

text \<open>
  \<^verbatim>\<open>Array.prototype.sort(compare)\<close> is stable: of two elements, the first stays first
  unless the comparator puts it after the second. For a consistent comparator that
  fixes the result, which stable insertion computes.
\<close>

fun insert_by :: "('a \<Rightarrow> 'a \<Rightarrow> int) \<Rightarrow> 'a \<Rightarrow> 'a list \<Rightarrow> 'a list" where
  "insert_by cmp x [] = [x]"
| "insert_by cmp x (y # ys) = (if cmp x y \<le> 0 then x # y # ys else y # insert_by cmp x ys)"

fun sort_by :: "('a \<Rightarrow> 'a \<Rightarrow> int) \<Rightarrow> 'a list \<Rightarrow> 'a list" where
  "sort_by cmp [] = []"
| "sort_by cmp (x # xs) = insert_by cmp x (sort_by cmp xs)"

definition myItems :: "app_state \<Rightarrow> item list" where
  "myItems s =
     sort_by compare_items
       (filter (\<lambda>x. strict_eq (ownerId x) (userId s)) (object_values (items s)))"

text \<open>\<^verbatim>\<open>const currentItem = items[selectedItem?.id] || selectedItem\<close>.\<close>

definition currentItem :: "app_state \<Rightarrow> item js_ref option" where
  "currentItem s =
     (case js_get (items s) (to_string (opt_prop item_id (selectedItem s))) of
        Some x \<Rightarrow> Some x
      | None \<Rightarrow> selectedItem s)"

text \<open>
  What \<^verbatim>\<open>UserProfileView\<close> renders for its \<^verbatim>\<open>selectedItem\<close> property (the current item)
  and \<^verbatim>\<open>userId\<close>: the status badge, whether the contact button and the mark-returned
  button exist, and whether the latter is disabled.
\<close>

record user_profile_view =
  badge :: status
  contact_button :: bool
  mark_button :: bool
  mark_disabled :: bool

definition UserProfileView :: "item js_ref \<Rightarrow> jsstring option \<Rightarrow> user_profile_view" where
  "UserProfileView it u =
     (let isOwner = strict_eq (get_prop ownerId it) u;
          isReturned = (get_prop status it = Some Returned)
      in \<lparr>badge = (if isReturned then Returned else Missing),
          contact_button = (\<not> isOwner \<and> \<not> isReturned),
          mark_button = (\<not> isOwner),
          mark_disabled = isReturned\<rparr>)"

text \<open>The \<^verbatim>\<open>'user-profile'\<close> case of \<^verbatim>\<open>renderView\<close>.\<close>

definition render_user_profile :: "app_state \<Rightarrow> user_profile_view option" where
  "render_user_profile s =
     (case currentItem s of
        None \<Rightarrow> None
      | Some it \<Rightarrow> if selectedUser s = None then None else Some (UserProfileView it (userId s)))"

section \<open>Events\<close>

text \<open>
  Every handler and listener callback above as one step function on the client state
  and the store. The generated identifier of a new item and the outcome of
  \<^verbatim>\<open>signOut\<close> come with the event.
\<close>

datatype event =
    Navigate view
  | SubmitScan jsstring
  | ClickStartChat
  | ClickMarkReturned
  | ClickConfirm
  | ClickCancel
  | SendChat jsstring
  | SubmitItem jsstring jsstring jsstring
  | SubmitProfile jsstring "jsstring option"
  | ClickLogout bool
  | ItemsSnapshot "(jsstring \<times> item_data) list"
  | UsersSnapshot "(jsstring \<times> profile) list"
  | ChatsSnapshot "(jsstring \<times> chat_data) list"
  | MessagesSnapshot "(jsstring \<times> message_data) list"

fun step :: "event \<Rightarrow> app_state \<times> backend \<Rightarrow> app_state \<times> backend" where
  "step (Navigate v) (s, b) = (setView v s, b)"
| "step (SubmitScan field) (s, b) = snd (ScanView_handleSubmit field (s, b))"
| "step ClickStartChat (s, b) = handleStartChat (s, b)"
| "step ClickMarkReturned (s, b) = (handleMarkReturned s, b)"
| "step ClickConfirm (s, b) = click_confirm (s, b)"
| "step ClickCancel (s, b) = click_cancel (s, b)"
| "step (SendChat field) (s, b) = ChatView_handleSend field (s, b)"
| "step (SubmitItem name_field descr_field new_id) (s, b) =
     AddItemView_handleSubmit name_field descr_field new_id (s, b)"
| "step (SubmitProfile name_field photo) (s, b) = ProfileSetupView_handleSubmit name_field photo (s, b)"
| "step (ClickLogout signed_out) (s, b) = (handleLogout signed_out s, b)"
| "step (ItemsSnapshot docs) (s, b) = (items_listener docs s, b)"
| "step (UsersSnapshot docs) (s, b) = (users_listener docs s, b)"
| "step (ChatsSnapshot docs) (s, b) = (chats_listener docs s, b)"
| "step (MessagesSnapshot docs) (s, b) = (messages_listener_callback docs s, b)"

text \<open>
  An event followed by the render it causes, which fails if a state updater throws, and
  whose effects run before the next event.
\<close>

definition dispatch :: "event \<Rightarrow> app_state \<times> backend \<Rightarrow> sdk_exception + app_state \<times> backend" where
  "dispatch e sb =
     (case step e sb of
        (s', b') \<Rightarrow>
          if render_failed s' then Inl TypeError
          else (case messages_effect s' of Inl err \<Rightarrow> Inl err | Inr s'' \<Rightarrow> Inr (s'', b')))"

text \<open>
  The requests an event sends, the status the store holds for an item, and runs of
  events. \<^verbatim>\<open>addDoc\<close> relies on the SDK to generate an identifier that no document of the
  collection has; \<open>fresh_id\<close> states that for the identifier that comes with an event.
\<close>

definition new_requests :: "event \<Rightarrow> app_state \<times> backend \<Rightarrow> request list" where
  "new_requests e sb = drop (length (requests (snd sb))) (requests (snd (step e sb)))"

definition item_status :: "backend \<Rightarrow> jsstring \<Rightarrow> status option" where
  "item_status b k = (case item_docs b k of None \<Rightarrow> None | Some d \<Rightarrow> status d)"

definition fresh_id :: "event \<Rightarrow> backend \<Rightarrow> bool" where
  "fresh_id e b = (case e of SubmitItem name_field descr_field new_id \<Rightarrow> item_docs b new_id = None
                   | _ \<Rightarrow> True)"

fun run :: "event list \<Rightarrow> app_state \<times> backend \<Rightarrow> app_state \<times> backend" where
  "run [] sb = sb"
| "run (e # es) sb = run es (step e sb)"

fun fresh_ids :: "event list \<Rightarrow> app_state \<times> backend \<Rightarrow> bool" where
  "fresh_ids [] sb = True"
| "fresh_ids (e # es) sb = (fresh_id e (snd sb) \<and> fresh_ids es (step e sb))"

text \<open>
  Two predicates for the proofs. The Cancel button of a modal only ever closes it (the
  program stores no other callback in \<^verbatim>\<open>onCancel\<close>); and a store \<open>b'\<close> that follows \<open>b\<close>
  with the same item documents and with further requests none of which writes an item.
\<close>

definition cancel_only_closes :: "app_state \<Rightarrow> bool" where
  "cancel_only_closes s \<longleftrightarrow> onCancel (modal s) = None \<or> onCancel (modal s) = Some CloseModal"

definition no_item_write :: "backend \<Rightarrow> backend \<Rightarrow> bool" where
  "no_item_write b b' \<longleftrightarrow> item_docs b' = item_docs b \<and>
     (\<exists>rs. requests b' = requests b @ rs \<and> (\<forall>k. MergeItemDoc k \<notin> set rs))"

section \<open>Example data\<close>

text \<open>
  Two principals \<open>u1\<close> and \<open>u2\<close>, a snapshot of six items (five of \<open>u1\<close>, one of them
  with no timestamp yet), and a store that accepts every request.
\<close>

definition ex_time :: fs_timestamp where
  "ex_time = \<lparr>seconds = 1700000000, nanoseconds = 0\<rparr>"

definition ex_item :: "string \<Rightarrow> string \<Rightarrow> status \<Rightarrow> int option \<Rightarrow> item" where
  "ex_item k owner st secs =
     \<lparr>itemName = Some (js ''Blue Backpack''), description = Some [], ownerId = Some (js owner),
      status = Some st, createdAt = map_option (\<lambda>n. \<lparr>seconds = n, nanoseconds = 0\<rparr>) secs,
      item_id = Some (js k)\<rparr>"

definition ex_items :: "item js_object" where
  "ex_items =
     [(js ''r1'', ex_item ''r1'' ''u1'' Returned (Some 100)),
      (js ''m1'', ex_item ''m1'' ''u1'' Missing (Some 200)),
      (js ''m2'', ex_item ''m2'' ''u1'' Missing (Some 300)),
      (js ''r2'', ex_item ''r2'' ''u1'' Returned (Some 400)),
      (js ''m3'', ex_item ''m3'' ''u1'' Missing None),
      (js ''x1'', ex_item ''x1'' ''u2'' Missing (Some 500))]"

definition ex_profile :: "string \<Rightarrow> profile" where
  "ex_profile u = \<lparr>uid = Some (js u), name = Some (js ''Sam''), email = Some (js ''N/A''),
                   photoURL = Some (js ''p''), profile_createdAt = None, profile_updatedAt = None\<rparr>"

text \<open>The session of \<open>u\<close> on the scan view.\<close>

definition ex_session :: "string \<Rightarrow> app_state" where
  "ex_session u = (initial_state True)
     \<lparr>userId := Some (js u), userProfile := Some (ex_profile u), items := ex_items, view := Scan\<rparr>"

definition item_data_of :: "item \<Rightarrow> item_data" where
  "item_data_of x = \<lparr>itemName = itemName x, description = description x, ownerId = ownerId x,
                     status = status x, createdAt = createdAt x\<rparr>"

definition ex_store :: backend where
  "ex_store = \<lparr>user_docs = Map.empty, public_profiles = Map.empty,
               item_docs = map_of (map (\<lambda>(k, x). (k, item_data_of x)) ex_items),
               chat_docs = Map.empty, message_docs = (\<lambda>k. []), server_time = ex_time,
               denied = (\<lambda>r. False), requests = []\<rparr>"

text \<open>A store whose access policy rejects the read of the private profile of \<open>u2\<close>.\<close>

definition cx_store :: backend where
  "cx_store = ex_store\<lparr>denied := (\<lambda>r. r = GetUserDoc (js ''u2''))\<rparr>"

text \<open>The session of \<open>u\<close> on the owner view of item \<open>k\<close>, after a scan resolved it.\<close>

definition ex_viewing :: "string \<Rightarrow> string \<Rightarrow> string \<Rightarrow> app_state" where
  "ex_viewing u k owner = (ex_session u)
     \<lparr>selectedItem := js_get ex_items (js k),
      selectedUser := Some (Obj (ex_profile owner)), view := UserProfile\<rparr>"

text \<open>
  The session of \<open>u1\<close> after it started a chat with \<open>u2\<close> from the owner view of item
  \<open>x1\<close>, and a snapshot of one message.
\<close>

definition cx_chatting :: "app_state \<times> backend" where
  "cx_chatting =
     (case dispatch ClickStartChat (ex_viewing ''u1'' ''x1'' ''u2'', ex_store) of
        Inr sb \<Rightarrow> sb
      | Inl err \<Rightarrow> (ex_viewing ''u1'' ''x1'' ''u2'', ex_store))"

definition ex_other_chat :: chat where
  "ex_other_chat = \<lparr>participants = Some [Some (js ''u1''), Some (js ''u3'')],
                     chat_itemId = Some (js ''m1''), lastMessageAt = Some ex_time,
                     chat_id = Some (js ''u1_u3''), messages = None\<rparr>"

definition ex_messages :: "(jsstring \<times> message_data) list" where
  "ex_messages = [(js ''msg1'', \<lparr>senderId = Some (js ''u2''), msg_text = Some (js ''Found it at the cafe''),
                                 msg_timestamp = Some ex_time\<rparr>)]"

text \<open>
  A snapshot of two missing items of \<open>u1\<close> created within one second, the older one
  first; and the session of \<open>u1\<close> on the owner view of an item whose owner identifier
  contains a slash.
\<close>

definition cx_same_second_items :: "item js_object" where
  "cx_same_second_items =
     [(js ''a1'', (ex_item ''a1'' ''u1'' Missing None)
                     \<lparr>createdAt := Some \<lparr>seconds = 100, nanoseconds = 1\<rparr>\<rparr>),
      (js ''a2'', (ex_item ''a2'' ''u1'' Missing None)
                     \<lparr>createdAt := Some \<lparr>seconds = 100, nanoseconds = 999\<rparr>\<rparr>)]"

definition cx_same_second :: app_state where
  "cx_same_second = (ex_session ''u1'')\<lparr>items := cx_same_second_items\<rparr>"


section \<open>Document paths\<close>

lemma split_path_no_slash: "0x2F \<notin> set k \<Longrightarrow> split_path k = [k]"
  by (induction k) auto

lemma has_double_slash_no_slash: "0x2F \<notin> set k \<Longrightarrow> \<not> has_double_slash k"
  by (induction k rule: has_double_slash.induct) auto

lemma path_segments_no_slash: "0x2F \<notin> set k \<Longrightarrow> k \<noteq> [] \<Longrightarrow> path_segments k = [k]"
  by (simp add: path_segments_def split_path_no_slash)

lemma doc_path_ok_no_slash: "0x2F \<notin> set k \<Longrightarrow> k \<noteq> [] \<Longrightarrow> doc_path_ok k"
  by (simp add: doc_path_ok_def path_segments_no_slash has_double_slash_no_slash)


lemma doc_path_ok_nonempty: "doc_path_ok k \<Longrightarrow> k \<noteq> []"
  by (auto simp: doc_path_ok_def path_segments_def)

section \<open>Chat identifiers and chat initiation\<close>











section \<open>The order of the dashboard list\<close>

lemma compare_items_antisym: "compare_items b a = - compare_items a b"
  by (simp add: compare_items_def)

lemma compare_items_total: "compare_items a b \<le> 0 \<or> compare_items b a \<le> 0"
  by (auto simp: compare_items_def)

lemma compare_items_trans:
  "compare_items a b \<le> 0 \<Longrightarrow> compare_items b c \<le> 0 \<Longrightarrow> compare_items a c \<le> 0"
  by (auto simp: compare_items_def split: if_splits)

lemma compare_items_le_iff:
  "compare_items a b \<le> 0 \<longleftrightarrow>
     (status b = Some Missing \<longrightarrow> status a = Some Missing) \<and>
     ((status a = Some Missing) = (status b = Some Missing) \<longrightarrow> created_seconds b \<le> created_seconds a)"
  by (auto simp: compare_items_def)

lemma mset_insert_by: "mset (insert_by cmp x xs) = add_mset x (mset xs)"
  by (induction xs) auto

lemma mset_sort_by: "mset (sort_by cmp xs) = mset xs"
  by (induction xs) (auto simp: mset_insert_by)

lemma set_insert_by: "set (insert_by cmp x xs) = insert x (set xs)"
  by (induction xs) auto

lemma sorted_insert_by:
  assumes total: "\<And>a b. cmp a b \<le> 0 \<or> cmp b a \<le> 0"
    and trans: "\<And>a b c. cmp a b \<le> 0 \<Longrightarrow> cmp b c \<le> 0 \<Longrightarrow> cmp a c \<le> (0::int)"
    and "sorted_wrt (\<lambda>a b. cmp a b \<le> 0) xs"
  shows "sorted_wrt (\<lambda>a b. cmp a b \<le> 0) (insert_by cmp x xs)"
  using assms(3)
proof (induction xs)
  case Nil
  then show ?case by simp
next
  case (Cons y ys)
  show ?case
  proof (cases "cmp x y \<le> 0")
    case True
    with Cons.prems trans show ?thesis by auto
  next
    case False
    with total have "cmp y x \<le> 0" by blast
    with False Cons show ?thesis by (auto simp: set_insert_by)
  qed
qed

lemma sorted_sort_by:
  assumes "\<And>a b. cmp a b \<le> 0 \<or> cmp b a \<le> 0"
    and "\<And>a b c. cmp a b \<le> 0 \<Longrightarrow> cmp b c \<le> 0 \<Longrightarrow> cmp a c \<le> (0::int)"
  shows "sorted_wrt (\<lambda>a b. cmp a b \<le> 0) (sort_by cmp xs)"
proof (induction xs)
  case Nil
  show ?case by simp
next
  case (Cons x xs)
  then show ?case using sorted_insert_by[of cmp "sort_by cmp xs" x] assms by simp
qed

lemma sorted_myItems: "sorted_wrt (\<lambda>a b. compare_items a b \<le> 0) (myItems s)"
  unfolding myItems_def
  using compare_items_total compare_items_trans by (rule sorted_sort_by)

lemma filter_insert_by:
  assumes "\<And>y. y \<in> set xs \<Longrightarrow> P x \<Longrightarrow> P y \<Longrightarrow> cmp x y \<le> (0::int)"
  shows "filter P (insert_by cmp x xs) = (if P x then x # filter P xs else filter P xs)"
  using assms by (induction xs) auto

lemma filter_sort_by:
  assumes "\<And>x y. P x \<Longrightarrow> P y \<Longrightarrow> cmp x y \<le> (0::int)"
  shows "filter P (sort_by cmp xs) = filter P xs"
proof (induction xs)
  case Nil
  show ?case by simp
next
  case (Cons x xs)
  have "filter P (insert_by cmp x (sort_by cmp xs))
          = (if P x then x # filter P (sort_by cmp xs) else filter P (sort_by cmp xs))"
    using assms by (intro filter_insert_by) auto
  with Cons show ?case by simp
qed

lemma ex_myItems:
  "myItems (ex_session ''u1'') =
     [ex_item ''m2'' ''u1'' Missing (Some 300), ex_item ''m1'' ''u1'' Missing (Some 200),
      ex_item ''m3'' ''u1'' Missing None, ex_item ''r2'' ''u1'' Returned (Some 400),
      ex_item ''r1'' ''u1'' Returned (Some 100)]"
  by (simp add: myItems_def ex_session_def initial_state_def ex_items_def ex_item_def
      object_values_def own_entries_def array_index_def is_digit_def strict_eq_def js_def
      compare_items_def created_seconds_def)

text \<open>
  Claim C3. Two missing items of one principal created within the same second, the older
  one first in the snapshot: the comparator reads \<^verbatim>\<open>createdAt.seconds\<close> only, finds them
  equal, and \<^verbatim>\<open>myItems\<close> lists the older item before the more recent one.
\<close>

theorem same_second_items_keep_snapshot_order:
  "map item_id (myItems cx_same_second) = [Some (js ''a1''), Some (js ''a2'')]
   \<and> map status (myItems cx_same_second) = [Some Missing, Some Missing]
   \<and> map createdAt (myItems cx_same_second)
        = [Some \<lparr>seconds = 100, nanoseconds = 1\<rparr>, Some \<lparr>seconds = 100, nanoseconds = 999\<rparr>]
   \<and> later_than \<lparr>seconds = 100, nanoseconds = 999\<rparr> \<lparr>seconds = 100, nanoseconds = 1\<rparr>
   \<and> compare_items (myItems cx_same_second ! 0) (myItems cx_same_second ! 1) = 0"
  by (simp add: myItems_def cx_same_second_def cx_same_second_items_def ex_session_def
      initial_state_def ex_item_def object_values_def own_entries_def array_index_def
      is_digit_def strict_eq_def js_def compare_items_def created_seconds_def later_than_def)

text \<open>
  Claim C3, as the code has it. For every snapshot of the items and every current
  principal, \<^verbatim>\<open>myItems\<close> holds exactly the items of the snapshot whose \<^verbatim>\<open>ownerId\<close> is the
  principal (as a multiset); of any two of its elements the earlier one is missing
  whenever the later one is, and has the greater or equal \<^verbatim>\<open>createdAt.seconds\<close> (0 when
  there is no timestamp) whenever both are in the same status group; and the items of
  one status group with the same seconds stand in the order of the snapshot.
\<close>

theorem myItems_order:
  "mset (myItems s) = mset (filter (\<lambda>x. strict_eq (ownerId x) (userId s)) (object_values (items s)))
   \<and> sorted_wrt (\<lambda>a b. (status b = Some Missing \<longrightarrow> status a = Some Missing) \<and>
                       ((status a = Some Missing) = (status b = Some Missing)
                          \<longrightarrow> created_seconds b \<le> created_seconds a)) (myItems s)
   \<and> filter (\<lambda>x. (status x = Some Missing) = m \<and> created_seconds x = t) (myItems s)
       = filter (\<lambda>x. (status x = Some Missing) = m \<and> created_seconds x = t)
           (filter (\<lambda>x. strict_eq (ownerId x) (userId s)) (object_values (items s)))"
proof (intro conjI)
  show "mset (myItems s) = mset (filter (\<lambda>x. strict_eq (ownerId x) (userId s)) (object_values (items s)))"
    by (simp add: myItems_def mset_sort_by)
  show "sorted_wrt (\<lambda>a b. (status b = Some Missing \<longrightarrow> status a = Some Missing) \<and>
                       ((status a = Some Missing) = (status b = Some Missing)
                          \<longrightarrow> created_seconds b \<le> created_seconds a)) (myItems s)"
    using sorted_myItems[of s] by (simp only: compare_items_le_iff)
  show "filter (\<lambda>x. (status x = Some Missing) = m \<and> created_seconds x = t) (myItems s)
       = filter (\<lambda>x. (status x = Some Missing) = m \<and> created_seconds x = t)
           (filter (\<lambda>x. strict_eq (ownerId x) (userId s)) (object_values (items s)))"
    unfolding myItems_def by (rule filter_sort_by) (auto simp: compare_items_def)
qed

theorem myItems_order_witness:
  "mset (myItems (ex_session ''u1'')) =
     mset (filter (\<lambda>x. strict_eq (ownerId x) (userId (ex_session ''u1''))) (object_values (items (ex_session ''u1''))))
   \<and> map item_id (myItems (ex_session ''u1'')) = map (\<lambda>k. Some (js k)) [''m2'', ''m1'', ''m3'', ''r2'', ''r1'']
   \<and> map status (myItems (ex_session ''u1'')) = map Some [Missing, Missing, Missing, Returned, Returned]
   \<and> map created_seconds (myItems (ex_session ''u1'')) = [300, 200, 0, 400, 100]"
  using myItems_order[of "ex_session ''u1''" True 300]
  by (simp add: ex_myItems ex_item_def created_seconds_def)

text \<open>
  Claim C10. An item with no \<^verbatim>\<open>createdAt\<close> has creation time 0 in the comparator, so in
  \<^verbatim>\<open>myItems\<close> it stands after every item of its status group whose timestamp has positive
  seconds (every server-assigned time has); and the comparator is defined on every pair
  of items, whatever fields are missing, as a consistent total comparison: swapping the
  arguments negates the result, and the induced order is transitive.
\<close>

theorem absent_timestamp_sorts_last:
  "(createdAt x = None \<longrightarrow> created_seconds x = 0)
   \<and> (\<forall>i j. i < length (myItems s) \<and> j < length (myItems s)
          \<and> createdAt (myItems s ! i) = None
          \<and> (\<exists>t. createdAt (myItems s ! j) = Some t \<and> 0 < seconds t)
          \<and> (status (myItems s ! i) = Some Missing) = (status (myItems s ! j) = Some Missing)
        \<longrightarrow> j < i)
   \<and> compare_items b a = - compare_items a b
   \<and> (compare_items a b \<le> 0 \<and> compare_items b c \<le> 0 \<longrightarrow> compare_items a c \<le> 0)"
proof (intro conjI allI impI)
  show "created_seconds x = 0" if "createdAt x = None" using that by (simp add: created_seconds_def)
  show "compare_items b a = - compare_items a b" by (rule compare_items_antisym)
  show "compare_items a c \<le> 0" if "compare_items a b \<le> 0 \<and> compare_items b c \<le> 0"
    using that compare_items_trans by blast
  fix i j
  assume h: "i < length (myItems s) \<and> j < length (myItems s)
          \<and> createdAt (myItems s ! i) = None
          \<and> (\<exists>t. createdAt (myItems s ! j) = Some t \<and> 0 < seconds t)
          \<and> (status (myItems s ! i) = Some Missing) = (status (myItems s ! j) = Some Missing)"
  show "j < i"
  proof (rule ccontr)
    assume "\<not> j < i"
    with h have "i < j" by (cases "i = j") auto
    with h sorted_myItems[of s] have "compare_items (myItems s ! i) (myItems s ! j) \<le> 0"
      by (simp add: sorted_wrt_iff_nth_less)
    with h show False by (auto simp: compare_items_le_iff created_seconds_def)
  qed
qed

theorem absent_timestamp_sorts_last_witness:
  "createdAt (myItems (ex_session ''u1'') ! 2) = None
   \<and> createdAt (myItems (ex_session ''u1'') ! 1) = Some \<lparr>seconds = 200, nanoseconds = 0\<rparr>
   \<and> status (myItems (ex_session ''u1'') ! 2) = status (myItems (ex_session ''u1'') ! 1)
   \<and> created_seconds (myItems (ex_session ''u1'') ! 2) = 0
   \<and> (1::nat) < 2
   \<and> compare_items (myItems (ex_session ''u1'') ! 1) (myItems (ex_session ''u1'') ! 2) = - 200
   \<and> compare_items (myItems (ex_session ''u1'') ! 2) (myItems (ex_session ''u1'') ! 1) = 200"
  using absent_timestamp_sorts_last[of "myItems (ex_session ''u1'') ! 2" "ex_session ''u1''"
      "myItems (ex_session ''u1'') ! 2" "myItems (ex_session ''u1'') ! 1" "myItems (ex_session ''u1'') ! 2"]
  by (simp add: ex_myItems ex_item_def created_seconds_def compare_items_def)

section \<open>Scan resolution\<close>

text \<open>
  For an initialised session, an identifier that is neither a key of the snapshot nor the
  name of a member of \<^verbatim>\<open>Object.prototype\<close> is reported as not found, with the identifier
  in the message.
\<close>

lemma scan_unknown_id:
  assumes "db s" and "truthy (userId s)" and "map_of (items s) scanned = None"
    and "scanned \<notin> set object_prototype_keys"
  shows "handleScanResult scanned (s, b) = (Inl (Error (js ''No item found with ID: '' @ scanned)), s, b)"
  using assms by (simp add: handleScanResult_def js_get_def)

text \<open>
  Claim C4. A non-empty trimmed scan input that is not a key of the snapshot must fail
  with the not-found error that carries the input. The input \<^verbatim>\<open>constructor\<close> is not a key
  of the example snapshot, yet \<^verbatim>\<open>items[itemId]\<close> finds \<^verbatim>\<open>Object.prototype.constructor\<close>,
  the check \<^verbatim>\<open>!item\<close> passes, and resolution ends with the owner-profile error instead.
\<close>

theorem scan_inherited_key:
  "handleScanResult (js ''constructor'') (ex_session ''u1'', ex_store)
     = (Inl (Error (js ''Item found, but owner profile is missing or inaccessible.'')),
        ex_session ''u1'', ex_store)
   \<and> map_of (items (ex_session ''u1'')) (js ''constructor'') = None
   \<and> trim (js ''constructor'') = js ''constructor''
   \<and> fst (ScanView_handleSubmit (js ''constructor'') (ex_session ''u1'', ex_store))
        = Mounted (Some (js ''Item found, but owner profile is missing or inaccessible.''))"
  by (simp add: handleScanResult_def js_get_def ex_session_def initial_state_def ex_items_def
      object_prototype_keys_def js_def truthy_def strict_eq_def get_prop_def to_string_def
      fetchProfileByUid_def getDoc_user_def ScanView_handleSubmit_def scan_view_with_def
      trim_def is_white_space_def white_space_def)

theorem scan_inherited_key_witness:
  "fst (handleScanResult (js ''constructor'') (ex_session ''u1'', ex_store))
     \<noteq> Inl (Error (js ''No item found with ID: '' @ js ''constructor''))"
  using scan_inherited_key by (simp add: js_def)

text \<open>
  Claim C5. In an initialised session, a scan input that resolves to an item whose
  \<^verbatim>\<open>ownerId\<close> is the current principal selects that item, sets the view to \<^verbatim>\<open>item-qr\<close>
  (not \<^verbatim>\<open>user-profile\<close>), and still rejects with an error whose message differs from the
  not-found message.
\<close>

theorem self_scan:
  assumes "db s" and "userId s = Some u" and "u \<noteq> []"
    and "map_of (items s) scanned = Some it" and "ownerId it = Some u"
  shows "handleScanResult scanned (s, b)
           = (Inl (Error (js ''This is your own registered item.'')),
              s\<lparr>selectedItem := Some (Obj it), view := ItemQR\<rparr>, b)
         \<and> Error (js ''This is your own registered item.'')
             \<noteq> Error (js ''No item found with ID: '' @ scanned)
         \<and> view (fst (snd (handleScanResult scanned (s, b)))) = ItemQR
         \<and> view (fst (snd (handleScanResult scanned (s, b)))) \<noteq> UserProfile"
  using assms
  by (simp add: handleScanResult_def js_get_def truthy_def strict_eq_def get_prop_def js_def)

theorem self_scan_witness:
  "handleScanResult (js ''m1'') (ex_session ''u1'', ex_store)
     = (Inl (Error (js ''This is your own registered item.'')),
        (ex_session ''u1'')\<lparr>selectedItem := Some (Obj (ex_item ''m1'' ''u1'' Missing (Some 200))),
                             view := ItemQR\<rparr>, ex_store)"
proof -
  have h: "db (ex_session ''u1'')" "userId (ex_session ''u1'') = Some (js ''u1'')" "js ''u1'' \<noteq> []"
    "map_of (items (ex_session ''u1'')) (js ''m1'') = Some (ex_item ''m1'' ''u1'' Missing (Some 200))"
    "ownerId (ex_item ''m1'' ''u1'' Missing (Some 200)) = Some (js ''u1'')"
    by (simp_all add: ex_session_def initial_state_def ex_items_def ex_item_def js_def)
  show ?thesis using self_scan[OF h, of ex_store] by simp
qed

text \<open>
  Claim C6. When the owner's profile is not in the local cache and the point read fails
  with a store error, the failure must reach the controller as a store failure and not
  as a missing profile. In the example the store rejects the read of the profile of
  \<open>u2\<close>: \<^verbatim>\<open>getDoc\<close> throws, \<^verbatim>\<open>fetchProfileByUid\<close> catches it and returns \<^verbatim>\<open>null\<close>, and
  resolution rejects with the same error as for a store that has no such document.
\<close>

theorem store_error_is_swallowed:
  "denied cx_store (GetUserDoc (js ''u2''))
   \<and> js_get (users (ex_session ''u1'')) (js ''u2'') = None
   \<and> getDoc_user (Some (js ''u2'')) cx_store
        = (ReadError, cx_store\<lparr>requests := [GetUserDoc (js ''u2'')]\<rparr>)
   \<and> handleScanResult (js ''x1'') (ex_session ''u1'', cx_store)
        = (Inl (Error (js ''Item found, but owner profile is missing or inaccessible.'')),
           ex_session ''u1'', cx_store\<lparr>requests := [GetUserDoc (js ''u2'')]\<rparr>)
   \<and> fst (handleScanResult (js ''x1'') (ex_session ''u1'', cx_store))
        = fst (handleScanResult (js ''x1'') (ex_session ''u1'', ex_store))"
  by (simp add: handleScanResult_def js_get_def ex_session_def initial_state_def ex_items_def
      ex_item_def object_prototype_keys_def js_def truthy_def strict_eq_def get_prop_def
      to_string_def fetchProfileByUid_def getDoc_user_def cx_store_def ex_store_def
      doc_path_ok_def doc_key_def path_segments_def)

text \<open>
  Claim C6, as the code has it. For an item of another principal whose profile is not
  in the local cache, a point read that the store rejects and a point read that finds no
  document end alike: one read request is sent (none when the owner identifier gives no
  document path, since the reference cannot be built), resolution rejects with
  \<^verbatim>\<open>Item found, but owner profile is missing or inaccessible.\<close>, and the state of the
  controller is unchanged.
\<close>

theorem failed_profile_read_reported_as_missing:
  assumes "db s" and "userId s = Some u" and "u \<noteq> []"
    and "map_of (items s) scanned = Some it" and "ownerId it = Some ow" and "ow \<noteq> u" and "ow \<noteq> []"
    and "js_get (users s) ow = None"
    and "denied b (GetUserDoc ow) \<or> user_docs b (doc_key ow) = None"
  shows "handleScanResult scanned (s, b)
           = (Inl (Error (js ''Item found, but owner profile is missing or inaccessible.'')),
              s, if doc_path_ok ow then b\<lparr>requests := requests b @ [GetUserDoc ow]\<rparr> else b)"
  using assms
  by (auto simp: handleScanResult_def js_get_def truthy_def strict_eq_def get_prop_def
      to_string_def fetchProfileByUid_def getDoc_user_def Let_def split: option.splits)

theorem failed_profile_read_reported_as_missing_witness:
  "handleScanResult (js ''x1'') (ex_session ''u1'', cx_store)
        = (Inl (Error (js ''Item found, but owner profile is missing or inaccessible.'')),
           ex_session ''u1'', cx_store\<lparr>requests := requests cx_store @ [GetUserDoc (js ''u2'')]\<rparr>)"
proof -
  have h: "db (ex_session ''u1'')" "userId (ex_session ''u1'') = Some (js ''u1'')" "js ''u1'' \<noteq> []"
    "map_of (items (ex_session ''u1'')) (js ''x1'') = Some (ex_item ''x1'' ''u2'' Missing (Some 500))"
    "ownerId (ex_item ''x1'' ''u2'' Missing (Some 500)) = Some (js ''u2'')"
    "js ''u2'' \<noteq> js ''u1''" "js ''u2'' \<noteq> []"
    "js_get (users (ex_session ''u1'')) (js ''u2'') = None"
    "denied cx_store (GetUserDoc (js ''u2'')) \<or> user_docs cx_store (doc_key (js ''u2'')) = None"
    by (simp_all add: ex_session_def initial_state_def ex_items_def ex_item_def js_def js_get_def
        object_prototype_keys_def cx_store_def)
  have p: "doc_path_ok (js ''u2'')"
    by (simp add: doc_path_ok_no_slash js_def)
  show ?thesis using failed_profile_read_reported_as_missing[OF h] p by simp
qed







section \<open>Events and the store\<close>

text \<open>Evaluation of the example sessions.\<close>

lemmas ex_defs = ex_viewing_def ex_session_def initial_state_def initial_modal_def ex_items_def
  ex_item_def ex_profile_def ex_store_def ex_time_def item_data_of_def js_get_def js_def
  object_prototype_keys_def doc_path_ok_def doc_key_def path_segments_def

lemma ex_returned_view:
  "selectedItem (ex_viewing ''u2'' ''r1'' ''u1'') = Some (Obj (ex_item ''r1'' ''u1'' Returned (Some 100)))"
  "db (ex_viewing ''u2'' ''r1'' ''u1'')"
  "cancel_only_closes (ex_viewing ''u2'' ''r1'' ''u1'')"
  "item_status ex_store (js ''r1'') = Some Returned"
  "item_status ex_store (js ''m1'') = Some Missing"
  "item_docs ex_store (js ''n1'') = None"
  "selectedItem (ex_viewing ''u2'' ''m1'' ''u1'') = Some (Obj (ex_item ''m1'' ''u1'' Missing (Some 200)))"
  "db (ex_viewing ''u2'' ''m1'' ''u1'')"
  "cancel_only_closes (ex_viewing ''u2'' ''m1'' ''u1'')"
  by (simp_all add: ex_defs cancel_only_closes_def item_status_def)

lemma ex_confirm_m1:
  "step ClickConfirm (step ClickMarkReturned (ex_viewing ''u2'' ''m1'' ''u1'', ex_store))
     = ((ex_viewing ''u2'' ''m1'' ''u1'')
          \<lparr>selectedItem := Some (Obj (ex_item ''m1'' ''u1'' Returned (Some 200))),
           modal := notice ''Success'' ''Item marked as returned! Thank you for your honesty.''\<rparr>,
        ex_store\<lparr>requests := [MergeItemDoc (js ''m1'')],
                 item_docs := (item_docs ex_store)(js ''m1'' \<mapsto>
                    item_data_of (ex_item ''m1'' ''u1'' Returned (Some 200)))\<rparr>)"
  by (simp add: ex_defs handleMarkReturned_def click_confirm_def setDoc_item_def send_write_def
      get_prop_def spread_item_def merge_item_def merge_field_def Let_def)

lemma ex_confirm_r1:
  "step ClickConfirm (step ClickMarkReturned (ex_viewing ''u2'' ''r1'' ''u1'', ex_store))
     = ((ex_viewing ''u2'' ''r1'' ''u1'')
          \<lparr>modal := notice ''Success'' ''Item marked as returned! Thank you for your honesty.''\<rparr>,
        ex_store\<lparr>requests := [MergeItemDoc (js ''r1'')]\<rparr>)"
  by (simp add: ex_defs handleMarkReturned_def click_confirm_def setDoc_item_def send_write_def
      get_prop_def spread_item_def merge_item_def merge_field_def Let_def fun_upd_idem_iff)

text \<open>Every handler except the confirm callback and the item form leaves the items alone.\<close>

lemma no_item_write_refl [simp]: "no_item_write b b"
  by (simp add: no_item_write_def)

lemma no_item_write_trans: "no_item_write b b1 \<Longrightarrow> no_item_write b1 b2 \<Longrightarrow> no_item_write b b2"
  by (auto simp: no_item_write_def)

lemma no_item_write_setDoc_chat: "setDoc_chat d k w b = (ok, b') \<Longrightarrow> no_item_write b b'"
  by (auto simp: no_item_write_def setDoc_chat_def send_write_def Let_def split: option.splits if_splits)

lemma no_item_write_setDoc_user: "setDoc_user d k w b = (ok, b') \<Longrightarrow> no_item_write b b'"
  by (auto simp: no_item_write_def setDoc_user_def send_write_def Let_def split: if_splits)

lemma no_item_write_setDoc_public_profile: "setDoc_public_profile d k w b = (ok, b') \<Longrightarrow> no_item_write b b'"
  by (auto simp: no_item_write_def setDoc_public_profile_def send_write_def Let_def split: if_splits)

lemma no_item_write_addDoc_message: "addDoc_message d k w b = (ok, b') \<Longrightarrow> no_item_write b b'"
  by (auto simp: no_item_write_def addDoc_message_def send_write_def Let_def split: option.splits if_splits)

lemma no_item_write_getDoc_user: "getDoc_user u b = (r, b') \<Longrightarrow> no_item_write b b'"
  by (auto simp: no_item_write_def getDoc_user_def Let_def split: option.splits if_splits)

lemma no_item_write_fetchProfileByUid: "fetchProfileByUid d u b = (r, b') \<Longrightarrow> no_item_write b b'"
  by (auto simp: fetchProfileByUid_def split: prod.splits read.splits if_splits dest: no_item_write_getDoc_user)

lemma no_item_write_handleScanResult: "handleScanResult k (s, b) = (r, s', b') \<Longrightarrow> no_item_write b b'"
  by (auto simp: handleScanResult_def Let_def split: option.splits prod.splits sum.splits if_splits
      dest: no_item_write_fetchProfileByUid)

lemma no_item_write_ScanView_handleSubmit: "ScanView_handleSubmit f (s, b) = (r, s', b') \<Longrightarrow> no_item_write b b'"
  by (auto simp: ScanView_handleSubmit_def split: prod.splits sum.splits error.splits if_splits
      dest: no_item_write_handleScanResult)

lemma no_item_write_handleStartChat: "handleStartChat (s, b) = (s', b') \<Longrightarrow> no_item_write b b'"
  by (auto simp: handleStartChat_def Let_def split: option.splits prod.splits sum.splits if_splits
      dest: no_item_write_setDoc_chat)

lemma no_item_write_handleSendMessage: "handleSendMessage t (s, b) = (s', b') \<Longrightarrow> no_item_write b b'"
  by (auto simp: handleSendMessage_def Let_def split: option.splits prod.splits bool.splits if_splits
      dest: no_item_write_addDoc_message no_item_write_setDoc_chat intro: no_item_write_trans)

lemma no_item_write_ChatView_handleSend: "ChatView_handleSend f (s, b) = (s', b') \<Longrightarrow> no_item_write b b'"
  by (auto simp: ChatView_handleSend_def split: if_splits dest: no_item_write_handleSendMessage)

lemma no_item_write_handleProfileSetup: "handleProfileSetup n p (s, b) = (s', b') \<Longrightarrow> no_item_write b b'"
  by (auto simp: handleProfileSetup_def Let_def split: option.splits prod.splits bool.splits if_splits
      dest: no_item_write_setDoc_user no_item_write_setDoc_public_profile intro: no_item_write_trans)

lemma no_item_write_ProfileSetupView_handleSubmit:
  "ProfileSetupView_handleSubmit f p (s, b) = (s', b') \<Longrightarrow> no_item_write b b'"
  by (auto simp: ProfileSetupView_handleSubmit_def split: option.splits if_splits
      dest: no_item_write_handleProfileSetup)


lemma no_item_write_step:
  assumes "step e (s, b) = (s', b')" and "e \<noteq> ClickConfirm" and "\<And>n d i. e \<noteq> SubmitItem n d i"
    and "cancel_only_closes s"
  shows "no_item_write b b'"
proof (cases e)
  case (SubmitScan f)
  with assms(1) show ?thesis
    by (cases "ScanView_handleSubmit f (s, b)") (auto dest: no_item_write_ScanView_handleSubmit)
next
  case ClickCancel
  with assms(1,4) show ?thesis
    by (auto simp: click_cancel_def cancel_only_closes_def split: if_splits option.splits)
qed (use assms in \<open>auto dest: no_item_write_handleStartChat no_item_write_ChatView_handleSend
      no_item_write_ProfileSetupView_handleSubmit\<close>)

lemma no_item_write_new_requests:
  "no_item_write (snd sb) (snd (step e sb)) \<Longrightarrow> MergeItemDoc k \<notin> set (new_requests e sb)"
  by (auto simp: no_item_write_def new_requests_def)

lemma SubmitItem_requests:
  "MergeItemDoc k \<notin> set (new_requests (SubmitItem n d i) (s, b))"
  by (auto simp: new_requests_def AddItemView_handleSubmit_def handleAddItem_def addDoc_item_def
      send_write_def Let_def split: if_splits)

lemma ClickConfirm_requests:
  assumes "MergeItemDoc k \<in> set (new_requests ClickConfirm (s, b))"
  shows "isOpen (modal s) \<and> (\<exists>it. onConfirm (modal s) = Some (ConfirmReturn it) \<and> get_prop item_id it = Some k)"
proof -
  from assms have o: "isOpen (modal s)"
    by (auto simp: new_requests_def click_confirm_def split: if_splits)
  from assms o obtain f where f: "onConfirm (modal s) = Some f"
    by (cases "onConfirm (modal s)") (auto simp: new_requests_def click_confirm_def)
  show ?thesis
  proof (cases f)
    case (ConfirmReturn it)
    with assms o f have "get_prop item_id it = Some k"
      by (auto simp: new_requests_def click_confirm_def setDoc_item_def send_write_def Let_def
          split: option.splits if_splits)
    with o f ConfirmReturn show ?thesis by simp
  qed (use assms o f in \<open>auto simp: new_requests_def click_confirm_def\<close>)
qed

text \<open>What a step can do to the modal.\<close>

lemma modal_handleScanResult: "handleScanResult k (s, b) = (r, s', b') \<Longrightarrow> modal s' = modal s"
  by (auto simp: handleScanResult_def Let_def split: option.splits prod.splits sum.splits if_splits)

lemma modal_ScanView_handleSubmit: "ScanView_handleSubmit f (s, b) = (r, s', b') \<Longrightarrow> modal s' = modal s"
  by (auto simp: ScanView_handleSubmit_def split: prod.splits sum.splits error.splits if_splits
      dest: modal_handleScanResult)

lemma modal_step:
  assumes "step e (s, b) = (s', b')" and "e \<noteq> ClickMarkReturned"
  shows "modal s' = modal s \<or>
         ((onConfirm (modal s') = None \<or> onConfirm (modal s') = Some CloseModal)
          \<and> onCancel (modal s') = None)"
proof (cases e)
  case (SubmitScan f)
  with assms(1) show ?thesis
    by (cases "ScanView_handleSubmit f (s, b)") (auto dest: modal_ScanView_handleSubmit)
next
  case ClickStartChat
  with assms(1) show ?thesis
    by (auto simp: notice_def closed_modal_def handleStartChat_def Let_def
        split: option.splits prod.splits sum.splits if_splits)
next
  case ClickConfirm
  with assms(1) show ?thesis
  proof (cases "onConfirm (modal s)")
    case (Some f)
    with ClickConfirm assms(1) show ?thesis
      by (cases f) (auto simp: notice_def closed_modal_def click_confirm_def split: prod.splits bool.splits if_splits)
  qed (use ClickConfirm assms(1) in \<open>auto simp: click_confirm_def split: if_splits\<close>)
next
  case ClickCancel
  with assms(1) show ?thesis
  proof (cases "onCancel (modal s)")
    case (Some f)
    with ClickCancel assms(1) show ?thesis
      by (cases f) (auto simp: notice_def closed_modal_def click_cancel_def split: prod.splits bool.splits if_splits)
  qed (use ClickCancel assms(1) in \<open>auto simp: click_cancel_def split: if_splits\<close>)
next
  case (SendChat f)
  with assms(1) show ?thesis
    by (auto simp: notice_def closed_modal_def ChatView_handleSend_def handleSendMessage_def Let_def
        split: option.splits prod.splits bool.splits if_splits)
next
  case (SubmitItem n d i)
  with assms(1) show ?thesis
    by (auto simp: notice_def closed_modal_def AddItemView_handleSubmit_def handleAddItem_def Let_def
        split: option.splits prod.splits bool.splits if_splits)
next
  case (SubmitProfile n p)
  with assms(1) show ?thesis
    by (auto simp: notice_def closed_modal_def ProfileSetupView_handleSubmit_def handleProfileSetup_def Let_def
        split: option.splits prod.splits bool.splits if_splits)
qed (use assms in \<open>auto simp: setView_def handleLogout_def items_listener_def users_listener_def
      chats_listener_def messages_listener_callback_def split: option.splits if_splits\<close>)

lemma onConfirm_step:
  assumes "onConfirm (modal (fst (step e (s, b)))) = Some (ConfirmReturn it)"
  shows "e = ClickMarkReturned \<or> onConfirm (modal s) = Some (ConfirmReturn it)"
proof (cases "e = ClickMarkReturned")
  case False
  obtain s' b' where st: "step e (s, b) = (s', b')" by (cases "step e (s, b)")
  from modal_step[OF st False] assms show ?thesis
    unfolding st by auto
qed simp

lemma cancel_only_closes_step:
  assumes "cancel_only_closes s"
  shows "cancel_only_closes (fst (step e (s, b)))"
proof (cases "e = ClickMarkReturned")
  case True
  with assms show ?thesis
    by (auto simp: cancel_only_closes_def handleMarkReturned_def split: option.splits)
next
  case False
  obtain s' b' where st: "step e (s, b) = (s', b')" by (cases "step e (s, b)")
  from modal_step[OF st False] assms show ?thesis
    unfolding st by (auto simp: cancel_only_closes_def)
qed

text \<open>The Cancel button only closes the modal in every state a run reaches from the start.\<close>

lemma cancel_only_closes_initial: "cancel_only_closes (initial_state db_ok)"
  by (simp add: cancel_only_closes_def initial_state_def initial_modal_def)

lemma cancel_only_closes_run:
  "cancel_only_closes (fst sb) \<Longrightarrow> cancel_only_closes (fst (run es sb))"
proof (induction es arbitrary: sb)
  case Nil
  then show ?case by simp
next
  case (Cons e es)
  obtain s b where sb: "sb = (s, b)" by (cases sb)
  from Cons.prems have "cancel_only_closes (fst (step e (s, b)))"
    by (simp add: sb cancel_only_closes_step)
  with Cons.IH[of "step e (s, b)"] show ?case by (simp add: sb)
qed

text \<open>
  Claim C9. In a state whose Cancel button only closes the modal (the initial state is
  one, and every step keeps it so): a step sends the status write of an item only when
  it is the click on Confirm of an open modal whose confirm callback is the one of
  \<^verbatim>\<open>handleMarkReturned\<close> for that item; that callback enters the modal only through
  \<^verbatim>\<open>handleMarkReturned\<close>, which opens the modal with a Confirm and a Cancel button and
  sends nothing; and Cancel after it returns the store and the whole client state as
  they were, with the modal closed.
\<close>

theorem return_write_needs_confirmation:
  assumes "cancel_only_closes s"
  shows "(MergeItemDoc k \<in> set (new_requests e (s, b)) \<longrightarrow>
            e = ClickConfirm \<and> isOpen (modal s) \<and>
            (\<exists>it. onConfirm (modal s) = Some (ConfirmReturn it) \<and> get_prop item_id it = Some k))
    \<and> (onConfirm (modal (fst (step e (s, b)))) = Some (ConfirmReturn it) \<longrightarrow>
            e = ClickMarkReturned \<or> onConfirm (modal s) = Some (ConfirmReturn it))
    \<and> cancel_only_closes (fst (step e (s, b)))
    \<and> (selectedItem s = Some x \<and> db s \<longrightarrow>
            isOpen (modal (handleMarkReturned s))
            \<and> onConfirm (modal (handleMarkReturned s)) = Some (ConfirmReturn x)
            \<and> onCancel (modal (handleMarkReturned s)) = Some CloseModal
            \<and> step ClickMarkReturned (s, b) = (handleMarkReturned s, b)
            \<and> step ClickCancel (step ClickMarkReturned (s, b)) = (s\<lparr>modal := closed_modal\<rparr>, b))"
proof (intro conjI impI)
  assume m: "MergeItemDoc k \<in> set (new_requests e (s, b))"
  have e: "e = ClickConfirm"
  proof (rule ccontr)
    assume ne: "e \<noteq> ClickConfirm"
    show False
    proof (cases "\<exists>n d i. e = SubmitItem n d i")
      case True
      with m SubmitItem_requests show False by blast
    next
      case False
      obtain s' b' where st: "step e (s, b) = (s', b')" by (cases "step e (s, b)")
      from False have "\<And>n d i. e \<noteq> SubmitItem n d i" by blast
      from no_item_write_step[OF st ne this assms] have "no_item_write (snd (s, b)) (snd (step e (s, b)))"
        by (simp add: st)
      from no_item_write_new_requests[OF this] m show False by blast
    qed
  qed
  then show "e = ClickConfirm" .
  from m e ClickConfirm_requests[of k s b] show "isOpen (modal s)" by blast
  from m e ClickConfirm_requests[of k s b]
  show "\<exists>it. onConfirm (modal s) = Some (ConfirmReturn it) \<and> get_prop item_id it = Some k" by blast
next
  assume "onConfirm (modal (fst (step e (s, b)))) = Some (ConfirmReturn it)"
  then show "e = ClickMarkReturned \<or> onConfirm (modal s) = Some (ConfirmReturn it)"
    by (rule onConfirm_step)
next
  show "cancel_only_closes (fst (step e (s, b)))" using assms by (rule cancel_only_closes_step)
next
  assume h: "selectedItem s = Some x \<and> db s"
  then show "isOpen (modal (handleMarkReturned s))"
    "onConfirm (modal (handleMarkReturned s)) = Some (ConfirmReturn x)"
    "onCancel (modal (handleMarkReturned s)) = Some CloseModal"
    "step ClickMarkReturned (s, b) = (handleMarkReturned s, b)"
    "step ClickCancel (step ClickMarkReturned (s, b)) = (s\<lparr>modal := closed_modal\<rparr>, b)"
    by (simp_all add: handleMarkReturned_def click_cancel_def)
qed

theorem return_write_needs_confirmation_witness:
  "new_requests ClickMarkReturned (ex_viewing ''u2'' ''m1'' ''u1'', ex_store) = []
   \<and> isOpen (modal (handleMarkReturned (ex_viewing ''u2'' ''m1'' ''u1'')))
   \<and> new_requests ClickConfirm (step ClickMarkReturned (ex_viewing ''u2'' ''m1'' ''u1'', ex_store))
        = [MergeItemDoc (js ''m1'')]
   \<and> item_status (snd (step ClickConfirm (step ClickMarkReturned
          (ex_viewing ''u2'' ''m1'' ''u1'', ex_store)))) (js ''m1'') = Some Returned
   \<and> step ClickCancel (step ClickMarkReturned (ex_viewing ''u2'' ''m1'' ''u1'', ex_store))
        = ((ex_viewing ''u2'' ''m1'' ''u1'')\<lparr>modal := closed_modal\<rparr>, ex_store)
   \<and> item_status ex_store (js ''m1'') = Some Missing"
proof -
  have a: "new_requests ClickMarkReturned (ex_viewing ''u2'' ''m1'' ''u1'', ex_store) = []"
    by (simp add: new_requests_def)
  have c: "new_requests ClickConfirm (step ClickMarkReturned (ex_viewing ''u2'' ''m1'' ''u1'', ex_store))
        = [MergeItemDoc (js ''m1'')]"
    unfolding new_requests_def ex_confirm_m1 by (simp add: ex_store_def)
  have d: "item_status (snd (step ClickConfirm (step ClickMarkReturned
          (ex_viewing ''u2'' ''m1'' ''u1'', ex_store)))) (js ''m1'') = Some Returned"
    unfolding ex_confirm_m1 by (simp add: item_status_def item_data_of_def ex_item_def)
  from return_write_needs_confirmation[OF ex_returned_view(9),
      where k="js ''m1''" and e=ClickMarkReturned and b=ex_store
        and it="Obj (ex_item ''m1'' ''u1'' Missing (Some 200))"
        and x="Obj (ex_item ''m1'' ''u1'' Missing (Some 200))"]
    ex_returned_view(7,8)
  have g: "isOpen (modal (handleMarkReturned (ex_viewing ''u2'' ''m1'' ''u1'')))"
      "step ClickCancel (step ClickMarkReturned (ex_viewing ''u2'' ''m1'' ''u1'', ex_store))
        = ((ex_viewing ''u2'' ''m1'' ''u1'')\<lparr>modal := closed_modal\<rparr>, ex_store)"
    by blast+
  from a c d g ex_returned_view(5) show ?thesis by (intro conjI)
qed

text \<open>The status of a stored item under steps and runs.\<close>

lemma no_item_write_item_status: "no_item_write b b' \<Longrightarrow> item_status b' k = item_status b k"
  by (simp add: no_item_write_def item_status_def)

lemma item_status_run_callback:
  assumes "run_callback f (s, b) = (s', b')" and "item_status b k = Some Returned"
  shows "item_status b' k = Some Returned"
  using assms
  by (cases f)
     (auto simp: item_status_def setDoc_item_def send_write_def merge_item_def merge_field_def Let_def
           split: option.splits if_splits prod.splits bool.splits)

lemma item_status_step:
  assumes "step e (s, b) = (s', b')" and "item_status b k = Some Returned" and "fresh_id e b"
  shows "item_status b' k = Some Returned"
proof (cases e)
  case (SubmitScan f)
  with assms(1) have "no_item_write b b'"
    by (cases "ScanView_handleSubmit f (s, b)") (auto dest: no_item_write_ScanView_handleSubmit)
  with assms(2) show ?thesis by (simp add: no_item_write_item_status)
next
  case ClickStartChat
  with assms(1) have "no_item_write b b'" by (auto dest: no_item_write_handleStartChat)
  with assms(2) show ?thesis by (simp add: no_item_write_item_status)
next
  case (SendChat f)
  with assms(1) have "no_item_write b b'" by (auto dest: no_item_write_ChatView_handleSend)
  with assms(2) show ?thesis by (simp add: no_item_write_item_status)
next
  case (SubmitProfile n p)
  with assms(1) have "no_item_write b b'" by (auto dest: no_item_write_ProfileSetupView_handleSubmit)
  with assms(2) show ?thesis by (simp add: no_item_write_item_status)
next
  case ClickConfirm
  with assms(1,2) show ?thesis
    by (auto simp: click_confirm_def split: if_splits option.splits dest: item_status_run_callback)
next
  case ClickCancel
  with assms(1,2) show ?thesis
    by (auto simp: click_cancel_def split: if_splits option.splits dest: item_status_run_callback)
next
  case (SubmitItem n d i)
  with assms show ?thesis
    by (auto simp: AddItemView_handleSubmit_def handleAddItem_def addDoc_item_def send_write_def
        fresh_id_def item_status_def Let_def split: if_splits option.splits)
qed (use assms in auto)

lemma item_status_run:
  "item_status (snd sb) k = Some Returned \<Longrightarrow> fresh_ids es sb
     \<Longrightarrow> item_status (snd (run es sb)) k = Some Returned"
proof (induction es arbitrary: sb)
  case Nil
  then show ?case by simp
next
  case (Cons e es)
  obtain s b where sb: "sb = (s, b)" by (cases sb)
  obtain s' b' where st: "step e (s, b) = (s', b')" by (cases "step e (s, b)")
  from Cons.prems have "item_status b' k = Some Returned"
    using item_status_step[OF st] by (simp add: sb)
  with Cons.IH[of "(s', b')"] Cons.prems show ?case by (simp add: sb st)
qed

lemma currentItem_modal: "currentItem (s\<lparr>modal := m\<rparr>) = currentItem s"
  by (simp add: currentItem_def split: option.splits)

lemma currentItem_run_callback:
  assumes "run_callback f (s, b) = (s', b')" and "opt_prop status (currentItem s) = Some Returned"
  shows "opt_prop status (currentItem s') = Some Returned"
proof (cases f)
  case (ConfirmReturn it)
  show ?thesis
  proof (cases "fst (setDoc_item (db s) (get_prop item_id it)
             \<lparr>itemName = None, description = None, ownerId = None, status = Some Returned,
              createdAt = None\<rparr> b)")
    case True
    with ConfirmReturn assms(1)
    have s': "s' = s\<lparr>selectedItem := Some (Obj ((spread_item (selectedItem s))\<lparr>status := Some Returned\<rparr>)),
             modal := notice ''Success'' ''Item marked as returned! Thank you for your honesty.''\<rparr>"
      by (auto split: prod.splits bool.splits)
    have key: "opt_prop item_id (selectedItem s') = opt_prop item_id (selectedItem s)"
      unfolding s' by (auto simp: opt_prop_def get_prop_def spread_item_def empty_item_def
          split: option.splits js_ref.splits)
    show ?thesis
    proof (cases "js_get (items s) (to_string (opt_prop item_id (selectedItem s)))")
      case None
      then show ?thesis
        using key unfolding s' by (simp add: currentItem_def opt_prop_def get_prop_def)
    next
      case (Some x)
      then show ?thesis
        using key assms(2) unfolding s' by (simp add: currentItem_def)
    qed
  next
    case False
    with ConfirmReturn assms(1) have "s' = s\<lparr>modal := notice ''Error'' ''Failed to update item status.''\<rparr>"
      by (auto split: prod.splits bool.splits)
    then have "currentItem s' = currentItem s"
      by (simp add: currentItem_modal)
    with assms(2) show ?thesis by simp
  qed
qed (use assms in \<open>auto simp: currentItem_modal\<close>)

text \<open>
  Claim C2. An item that the store holds as returned is still returned after every step
  of the program, and after every run of steps, as long as \<^verbatim>\<open>addDoc\<close> generates fresh
  identifiers: no handler writes \<^verbatim>\<open>missing\<close> to an existing document. For an item shown
  as returned the owner view disables the mark-returned button and hides the contact
  button; and if the handler and its confirmation are invoked all the same, the item
  shown is still returned afterwards.
\<close>

theorem returned_is_final:
  "(item_status b k = Some Returned \<and> fresh_id e b \<longrightarrow>
       item_status (snd (step e (s, b))) k = Some Returned)
   \<and> (item_status (snd sb) k = Some Returned \<and> fresh_ids es sb \<longrightarrow>
       item_status (snd (run es sb)) k = Some Returned)
   \<and> (get_prop status it = Some Returned \<longrightarrow>
       mark_disabled (UserProfileView it u) \<and> badge (UserProfileView it u) = Returned
       \<and> \<not> contact_button (UserProfileView it u))
   \<and> (opt_prop status (currentItem s) = Some Returned
        \<and> (e = ClickMarkReturned \<or> e = ClickConfirm \<or> e = ClickCancel) \<longrightarrow>
       opt_prop status (currentItem (fst (step e (s, b)))) = Some Returned)"
proof (intro conjI impI)
  assume "item_status b k = Some Returned \<and> fresh_id e b"
  then show "item_status (snd (step e (s, b))) k = Some Returned"
    using item_status_step[of e s b "fst (step e (s, b))" "snd (step e (s, b))" k] by simp
next
  assume "item_status (snd sb) k = Some Returned \<and> fresh_ids es sb"
  then show "item_status (snd (run es sb)) k = Some Returned"
    using item_status_run by blast
next
  assume "get_prop status it = Some Returned"
  then show "mark_disabled (UserProfileView it u)" "badge (UserProfileView it u) = Returned"
    "\<not> contact_button (UserProfileView it u)"
    by (simp_all add: UserProfileView_def Let_def)
next
  assume h: "opt_prop status (currentItem s) = Some Returned
        \<and> (e = ClickMarkReturned \<or> e = ClickConfirm \<or> e = ClickCancel)"
  obtain s' b' where st: "step e (s, b) = (s', b')" by (cases "step e (s, b)")
  from h consider "e = ClickMarkReturned" | "e = ClickConfirm" | "e = ClickCancel" by blast
  then have "opt_prop status (currentItem s') = Some Returned"
  proof cases
    case 1
    with st h show ?thesis
      by (auto simp: handleMarkReturned_def currentItem_modal split: option.splits if_splits)
  next
    case 2
    with st h show ?thesis
      by (auto simp: click_confirm_def split: option.splits if_splits dest: currentItem_run_callback)
  next
    case 3
    with st h show ?thesis
      by (auto simp: click_cancel_def split: option.splits if_splits dest: currentItem_run_callback)
  qed
  then show "opt_prop status (currentItem (fst (step e (s, b)))) = Some Returned" by (simp add: st)
qed

theorem returned_is_final_witness:
  "item_status ex_store (js ''r1'') = Some Returned
   \<and> fresh_ids [ClickMarkReturned, ClickConfirm, SubmitItem (js ''Keys'') [] (js ''n1'')]
         (ex_viewing ''u2'' ''r1'' ''u1'', ex_store)
   \<and> item_status (snd (run [ClickMarkReturned, ClickConfirm, SubmitItem (js ''Keys'') [] (js ''n1'')]
         (ex_viewing ''u2'' ''r1'' ''u1'', ex_store))) (js ''r1'') = Some Returned
   \<and> mark_disabled (UserProfileView (Obj (ex_item ''r1'' ''u1'' Returned (Some 100))) (Some (js ''u2'')))
   \<and> opt_prop status (currentItem (ex_viewing ''u2'' ''r1'' ''u1'')) = Some Returned
   \<and> opt_prop status (currentItem (fst (step ClickConfirm
         (ex_viewing ''u2'' ''r1'' ''u1'', ex_store)))) = Some Returned"
proof -
  let ?s = "ex_viewing ''u2'' ''r1'' ''u1''"
  let ?es = "[ClickMarkReturned, ClickConfirm, SubmitItem (js ''Keys'') [] (js ''n1'')]"
  let ?it = "Obj (ex_item ''r1'' ''u1'' Returned (Some 100))"
  note inst = returned_is_final[where b=ex_store and k="js ''r1''" and e=ClickConfirm and s="?s"
      and sb="(?s, ex_store)" and es="?es" and it="?it" and u="Some (js ''u2'')"]
  have f: "fresh_ids ?es (?s, ex_store)"
    unfolding fresh_ids.simps ex_confirm_r1 by (simp add: fresh_id_def ex_defs)
  have v: "get_prop status ?it = Some Returned"
    by (simp add: get_prop_def ex_item_def)
  have c: "opt_prop status (currentItem ?s) = Some Returned"
    by (simp add: currentItem_def opt_prop_def get_prop_def to_string_def ex_defs)
  from inst ex_returned_view(4) f v c show ?thesis
    by (simp del: fresh_ids.simps run.simps step.simps)
qed

section \<open>The messages subscription\<close>

lemma cx_chatting_eval:
  "dispatch ClickStartChat (ex_viewing ''u1'' ''x1'' ''u2'', ex_store) = Inr cx_chatting"
  "view (fst cx_chatting) = Chat"
  "messages_listener (fst cx_chatting) = Some (js ''u1_u2'')"
  "messages_dep (fst cx_chatting) = Some (js ''u1_u2'')"
  "unsubscribed (fst cx_chatting) = []"
  "opt_prop chat_id (selectedChat (fst cx_chatting)) = Some (js ''u1_u2'')"
  "opt_prop messages (selectedChat (fst cx_chatting)) = Some []"
  "\<not> render_failed (fst cx_chatting)"
  by (simp_all add: cx_chatting_def dispatch_def handleStartChat_def ex_viewing_def ex_session_def
      initial_state_def ex_items_def ex_item_def js_get_def js_def get_prop_def opt_prop_def truthy_def
      getChatDocId_def js_sort_def setDoc_chat_def send_write_def ex_store_def
      object_prototype_keys_def messages_effect_def Let_def react_set_def
      doc_path_ok_def doc_key_def path_segments_def)

text \<open>
  Claim C8. The messages subscription must be torn down whenever the chat view is left.
  In the example \<open>u1\<close> starts a chat with \<open>u2\<close>, which registers the listener, and then
  navigates back to the owner view: the effect does not run again, the listener stays
  registered, nothing is unsubscribed, and a later snapshot still replaces the messages
  of the selected chat.
\<close>

theorem subscription_survives_back_navigation:
  "dispatch ClickStartChat (ex_viewing ''u1'' ''x1'' ''u2'', ex_store) = Inr cx_chatting
   \<and> view (fst cx_chatting) = Chat
   \<and> messages_listener (fst cx_chatting) = Some (js ''u1_u2'')
   \<and> dispatch (Navigate UserProfile) cx_chatting
        = Inr (setView UserProfile (fst cx_chatting), snd cx_chatting)
   \<and> view (setView UserProfile (fst cx_chatting)) = UserProfile
   \<and> messages_listener (setView UserProfile (fst cx_chatting)) = Some (js ''u1_u2'')
   \<and> unsubscribed (setView UserProfile (fst cx_chatting)) = []
   \<and> opt_prop messages (selectedChat (setView UserProfile (fst cx_chatting))) = Some []
   \<and> opt_prop messages (selectedChat
         (messages_listener_callback ex_messages (setView UserProfile (fst cx_chatting))))
        = Some [message_with_id (js ''msg1'') (snd (hd ex_messages))]"
proof -
  have nav: "dispatch (Navigate UserProfile) cx_chatting
        = Inr (setView UserProfile (fst cx_chatting), snd cx_chatting)"
  proof -
    obtain a b where ab: "cx_chatting = (a, b)" by (cases cx_chatting)
    from cx_chatting_eval(4,6,8)
    have "messages_dep a = Some (js ''u1_u2'')" "opt_prop chat_id (selectedChat a) = Some (js ''u1_u2'')"
      "\<not> render_failed a"
      unfolding ab by simp_all
    then show ?thesis
      unfolding ab by (simp add: dispatch_def messages_effect_def setView_def)
  qed
  have cb: "opt_prop messages (selectedChat
         (messages_listener_callback ex_messages (setView UserProfile (fst cx_chatting))))
        = Some [message_with_id (js ''msg1'') (snd (hd ex_messages))]"
    using cx_chatting_eval(3)
    by (simp add: messages_listener_callback_def setView_def opt_prop_def get_prop_def ex_messages_def)
  show ?thesis
    using cx_chatting_eval nav cb by (simp add: setView_def)
qed

text \<open>
  Claim C8, as the code has it. With the effect up to date, a change of view alone leaves
  the subscription as it is; selecting a chat with another identifier unsubscribes the
  old listener once and registers one for the new chat (when the identifier gives no
  collection path, the effect throws instead); and a successful logout, which clears the
  selection, unsubscribes the listener once.
\<close>

theorem messages_subscription_follows_selection:
  assumes "messages_dep s = opt_prop chat_id (selectedChat s)"
  shows "messages_effect (setView v s) = Inr (setView v s)
    \<and> (db s \<and> chat_id c = Some k \<and> messages_dep s \<noteq> Some k \<longrightarrow>
         messages_effect (s\<lparr>selectedChat := Some (Obj c)\<rparr>)
           = (if doc_path_ok k
              then Inr (s\<lparr>selectedChat := Some (Obj c), messages_dep := Some k,
                    messages_listener := Some k,
                    unsubscribed := unsubscribed s @
                      (case messages_listener s of None \<Rightarrow> [] | Some j \<Rightarrow> [j])\<rparr>)
              else Inl SdkError))
    \<and> (db s \<and> messages_dep s \<noteq> None \<longrightarrow>
         messages_effect (handleLogout True s)
           = Inr ((handleLogout True s)\<lparr>messages_dep := None, messages_listener := None,
                    unsubscribed := unsubscribed s @
                      (case messages_listener s of None \<Rightarrow> [] | Some j \<Rightarrow> [j])\<rparr>))"
  using assms
  by (auto simp: messages_effect_def setView_def handleLogout_def opt_prop_def get_prop_def Let_def)

theorem messages_subscription_follows_selection_witness:
  "messages_effect (setView UserProfile (fst cx_chatting)) = Inr (setView UserProfile (fst cx_chatting))
   \<and> messages_listener (setView UserProfile (fst cx_chatting)) = Some (js ''u1_u2'')
   \<and> messages_effect ((fst cx_chatting)\<lparr>selectedChat := Some (Obj ex_other_chat)\<rparr>)
        = Inr ((fst cx_chatting)\<lparr>selectedChat := Some (Obj ex_other_chat),
                 messages_dep := Some (js ''u1_u3''), messages_listener := Some (js ''u1_u3''),
                 unsubscribed := [js ''u1_u2'']\<rparr>)
   \<and> messages_effect (handleLogout True (fst cx_chatting))
        = Inr ((handleLogout True (fst cx_chatting))\<lparr>messages_dep := None, messages_listener := None,
                 unsubscribed := [js ''u1_u2'']\<rparr>)"
proof -
  have h: "messages_dep (fst cx_chatting) = opt_prop chat_id (selectedChat (fst cx_chatting))"
    using cx_chatting_eval(4,6) by simp
  have d: "db (fst cx_chatting)"
    by (simp add: cx_chatting_def dispatch_def handleStartChat_def ex_viewing_def ex_session_def
      initial_state_def ex_items_def ex_item_def js_get_def js_def get_prop_def opt_prop_def truthy_def
      getChatDocId_def js_sort_def setDoc_chat_def send_write_def ex_store_def
      object_prototype_keys_def messages_effect_def Let_def react_set_def
      doc_path_ok_def doc_key_def path_segments_def)
  have k: "chat_id ex_other_chat = Some (js ''u1_u3'')" "doc_path_ok (js ''u1_u3'')"
    "Some (js ''u1_u2'') \<noteq> Some (js ''u1_u3'')"
    by (simp_all add: ex_other_chat_def doc_path_ok_no_slash js_def)
  show ?thesis
    using messages_subscription_follows_selection[OF h, of UserProfile ex_other_chat "js ''u1_u3''"]
      d k cx_chatting_eval(3,4,5)
    by (simp add: setView_def)
qed

end
